theory Spec2Isabelle
  imports Complex_Main
begin

section \<open>Python values and exceptions\<close>

text \<open>
  The exceptions the two modules can raise. Each carries the argument the Python
  exception is built from: the missing key of a \<open>KeyError\<close>, the message otherwise.
\<close>

datatype py_error =
    KeyError string
  | AttributeError string
  | ValueError string
  | IndexError string
  | TypeError string

text \<open>\<open>bind_err\<close> sequences two steps, the second of which runs only when the first
  did not raise.\<close>

definition bind_err :: "py_error + 'a \<Rightarrow> ('a \<Rightarrow> py_error + 'b) \<Rightarrow> py_error + 'b" where
  "bind_err m f = (case m of Inl e \<Rightarrow> Inl e | Inr v \<Rightarrow> f v)"

text \<open>\<open>d[key]\<close> on a dictionary that holds \<open>key\<close> only when the field is set.\<close>

definition getitem :: "string \<Rightarrow> 'a option \<Rightarrow> py_error + 'a" where
  "getitem key v = (case v of None \<Rightarrow> Inl (KeyError key) | Some x \<Rightarrow> Inr x)"

text \<open>A text in single quotes, as the messages of the source write it.\<close>

definition quoted :: "string \<Rightarrow> string" where
  "quoted s = CHR 0x27 # s @ [CHR 0x27]"

text \<open>\<open>sep.join(xs)\<close>.\<close>

fun join :: "string \<Rightarrow> string list \<Rightarrow> string" where
  "join sep [] = []"
| "join sep [x] = x"
| "join sep (x # y # ys) = x @ sep @ join sep (y # ys)"

text \<open>A calendar date: year, month, day.\<close>

datatype date = Date int nat nat

text \<open>
  What a cell of a table can hold: Python's \<open>None\<close>, the float \<open>NaN\<close>, pandas'
  \<open>NaT\<close>, a string, a number, or a \<open>datetime.date\<close>.
\<close>

datatype cell = PyNone | NaN | NaT | PyStr string | PyNum rat | PyDate date

section \<open>Enumerations of the flattening module\<close>

datatype ColumnNames =
    USER_ID
  | EFFECTIVE_DATE_TIME
  | QUANTITY_NAME
  | QUANTITY_UNIT
  | QUANTITY_VALUE
  | LOINC_CODE
  | DISPLAY
  | APPLE_HEALTH_KIT_CODE

text \<open>The \<open>.value\<close> of a member of \<open>ColumnNames\<close>: the header of its column.\<close>

fun column_value :: "ColumnNames \<Rightarrow> string" where
  "column_value USER_ID = ''UserId''"
| "column_value EFFECTIVE_DATE_TIME = ''EffectiveDateTime''"
| "column_value QUANTITY_NAME = ''QuantityName''"
| "column_value QUANTITY_UNIT = ''QuantityUnit''"
| "column_value QUANTITY_VALUE = ''QuantityValue''"
| "column_value LOINC_CODE = ''LoincCode''"
| "column_value DISPLAY = ''Display''"
| "column_value APPLE_HEALTH_KIT_CODE = ''AppleHealthKitCode''"

datatype FHIRResourceType = OBSERVATION | QUESTIONNAIRE_RESPONSE

text \<open>The \<open>.value\<close> and the \<open>.name\<close> of a member of \<open>FHIRResourceType\<close>, and what
  \<open>str\<close> prints for it.\<close>

fun resource_type_value :: "FHIRResourceType \<Rightarrow> string" where
  "resource_type_value OBSERVATION = ''Observation''"
| "resource_type_value QUESTIONNAIRE_RESPONSE = ''QuestionnaireResponse''"

fun resource_type_name :: "FHIRResourceType \<Rightarrow> string" where
  "resource_type_name OBSERVATION = ''OBSERVATION''"
| "resource_type_name QUESTIONNAIRE_RESPONSE = ''QUESTIONNAIRE_RESPONSE''"

definition resource_type_str :: "FHIRResourceType \<Rightarrow> string" where
  "resource_type_str rt = ''FHIRResourceType.'' @ resource_type_name rt"

section \<open>The resource records the flattener reads\<close>

text \<open>
  The flattener receives resource objects of type \<open>Any\<close> and reads them through
  \<open>observation.dict()\<close>, \<open>observation.subject.id\<close> and \<open>resources[0].resource_type\<close>.
  A field that is not set is \<open>None\<close> as an attribute and has no key in \<open>dict()\<close>; it
  is \<open>None\<close> here. The timestamps are strings.
\<close>

record coding_entry =
  coding_code :: "string option"
  coding_display :: "string option"

record codeable_concept =
  concept_coding :: "coding_entry list option"

record period =
  period_start :: "string option"

record quantity =
  quantity_unit :: "string option"
  quantity_value :: "rat option"

record reference =
  reference_id :: "string option"

text \<open>
  The \<open>resource_type\<close> attribute of a record: the string the resource model stores
  (\<open>"Observation"\<close>), or, since the parameter is untyped, a member of
  \<open>FHIRResourceType\<close>.
\<close>

datatype kind_tag = StrTag string | EnumTag FHIRResourceType

record observation =
  obs_resource_type :: kind_tag
  obs_effectiveDateTime :: "string option"
  obs_effectivePeriod :: "period option"
  obs_code :: "codeable_concept option"
  obs_subject :: "reference option"
  obs_valueQuantity :: "quantity option"

section \<open>ObservationFlattener.flatten: one record\<close>

text \<open>Python's truth value of an optional string: \<open>None\<close> and \<open>""\<close> are false.\<close>

fun truthy :: "string option \<Rightarrow> bool" where
  "truthy None = False"
| "truthy (Some s) = (s \<noteq> [])"

text \<open>
  Lines 307 to 310 and 328 to 330: the timestamp of a record, before the column is
  parsed. \<open>.get("effectivePeriod", {}).get("start", None)\<close> is \<open>None\<close> when either key
  is absent.
\<close>

definition effective_datetime :: "observation \<Rightarrow> string option" where
  "effective_datetime observation =
     (let effective_datetime0 = obs_effectiveDateTime observation;
          effective_datetime1 =
            (if \<not> truthy effective_datetime0
             then (case obs_effectivePeriod observation of
                     None \<Rightarrow> None
                   | Some effective_period \<Rightarrow> period_start effective_period)
             else effective_datetime0)
      in if truthy effective_datetime1 then effective_datetime1 else None)"

fun cell_of_str :: "string option \<Rightarrow> cell" where
  "cell_of_str None = PyNone"
| "cell_of_str (Some s) = PyStr s"

text \<open>
  Lines 312 to 324: the four cells read from the coding list, in the order the source
  evaluates them. \<open>coding[i]["code"]\<close> raises \<open>KeyError\<close> when the entry has no code.
\<close>

definition loinc_code_of :: "coding_entry list \<Rightarrow> py_error + string" where
  "loinc_code_of coding =
     (if length coding > 0 then getitem ''code'' (coding_code (coding ! 0)) else Inr '''')"

definition display_of :: "coding_entry list \<Rightarrow> py_error + string" where
  "display_of coding =
     (if length coding > 0 then getitem ''display'' (coding_display (coding ! 0)) else Inr '''')"

definition apple_healthkit_code_of :: "coding_entry list \<Rightarrow> py_error + string" where
  "apple_healthkit_code_of coding =
     (if length coding > 1 then getitem ''code'' (coding_code (coding ! 1))
      else if length coding > 0 then getitem ''code'' (coding_code (coding ! 0))
      else Inr '''')"

definition quantity_name_of :: "coding_entry list \<Rightarrow> py_error + string" where
  "quantity_name_of coding =
     (if length coding > 1 then getitem ''display'' (coding_display (coding ! 1))
      else if length coding > 0 then getitem ''display'' (coding_display (coding ! 0))
      else Inr '''')"

text \<open>\<open>observation.subject.id\<close>: an attribute read, which fails on \<open>None\<close> only.\<close>

definition subject_id :: "observation \<Rightarrow> py_error + string option" where
  "subject_id observation =
     (case obs_subject observation of
        None \<Rightarrow> Inl (AttributeError (quoted ''NoneType'' @ '' object has no attribute '' @ quoted ''id''))
      | Some subject \<Rightarrow> Inr (reference_id subject))"

text \<open>
  The body of the loop, lines 307 to 341: the row of one record as a dictionary in
  insertion order, or the first exception its evaluation raises.
\<close>

definition flatten_entry :: "observation \<Rightarrow> py_error + (string \<times> cell) list" where
  "flatten_entry observation =
     bind_err (getitem ''code'' (obs_code observation)) (\<lambda>code.
     bind_err (getitem ''coding'' (concept_coding code)) (\<lambda>coding.
     bind_err (loinc_code_of coding) (\<lambda>loinc_code.
     bind_err (display_of coding) (\<lambda>display.
     bind_err (apple_healthkit_code_of coding) (\<lambda>apple_healthkit_code.
     bind_err (quantity_name_of coding) (\<lambda>quantity_name.
     bind_err (subject_id observation) (\<lambda>user_id.
     bind_err (getitem ''valueQuantity'' (obs_valueQuantity observation)) (\<lambda>value_quantity.
     bind_err (getitem ''unit'' (quantity_unit value_quantity)) (\<lambda>unit.
     bind_err (getitem ''valueQuantity'' (obs_valueQuantity observation)) (\<lambda>value_quantity'.
     bind_err (getitem ''value'' (quantity_value value_quantity')) (\<lambda>val.
     Inr [(column_value USER_ID, cell_of_str user_id),
          (column_value EFFECTIVE_DATE_TIME, cell_of_str (effective_datetime observation)),
          (column_value QUANTITY_NAME, PyStr quantity_name),
          (column_value QUANTITY_UNIT, PyStr unit),
          (column_value QUANTITY_VALUE, PyNum val),
          (column_value LOINC_CODE, PyStr loinc_code),
          (column_value DISPLAY, PyStr display),
          (column_value APPLE_HEALTH_KIT_CODE, PyStr apple_healthkit_code)]
     )))))))))))"

section \<open>Tables\<close>

text \<open>
  A \<open>pandas.DataFrame\<close>: its columns in order, each with its header, its dtype and its
  cells. The dtype is kept with the column, since \<open>validate_columns\<close> asks for it.
\<close>

datatype dtype = ObjectDtype | StringDtype | NumericDtype | BoolDtype | DatetimeDtype

record column =
  col_dtype :: dtype
  col_cells :: "cell list"

type_synonym DataFrame = "(string \<times> column) list"

text \<open>\<open>df.columns\<close>, \<open>df[key]\<close> and \<open>df[key] = column\<close> (an existing column is
  replaced where it stands, a new one is appended).\<close>

definition df_columns :: "DataFrame \<Rightarrow> string list" where
  "df_columns df = map fst df"

definition df_getitem :: "DataFrame \<Rightarrow> string \<Rightarrow> py_error + column" where
  "df_getitem df key = getitem key (map_of df key)"

fun df_setitem :: "DataFrame \<Rightarrow> string \<Rightarrow> column \<Rightarrow> DataFrame" where
  "df_setitem [] key c = [(key, c)]"
| "df_setitem ((k, c') # df) key c =
     (if k = key then (k, c) # df else (k, c') # df_setitem df key c)"

text \<open>The elements of a list in the order in which they first occur.\<close>

definition first_seen :: "'a list \<Rightarrow> 'a list" where
  "first_seen xs = rev (remdups (rev xs))"

text \<open>
  \<open>pd.DataFrame(data)\<close> for a list of dictionaries: one column per key, in the order the
  keys first occur; a row without the key gives \<open>NaN\<close>. The dtype pandas infers for a
  column is the parameter \<open>infer_dtype\<close>.
\<close>

definition pd_DataFrame :: "(cell list \<Rightarrow> dtype) \<Rightarrow> (string \<times> cell) list list \<Rightarrow> DataFrame" where
  "pd_DataFrame infer_dtype data =
     map (\<lambda>key.
            let cells = map (\<lambda>row. case map_of row key of None \<Rightarrow> NaN | Some c \<Rightarrow> c) data
            in (key, \<lparr>col_dtype = infer_dtype cells, col_cells = cells\<rparr>))
         (first_seen (concat (map (map fst) data)))"

text \<open>
  \<open>pd.to_datetime(column, errors="coerce").dt.date\<close>: every cell becomes a date or
  \<open>NaT\<close>. How pandas reads a string as a date, given the column it stands in, is the
  parameter \<open>to_date\<close>; \<open>None\<close> is what \<open>errors="coerce"\<close> turns into \<open>NaT\<close>.
\<close>

definition coerce_date :: "(cell list \<Rightarrow> string \<Rightarrow> date option) \<Rightarrow> cell list \<Rightarrow> cell \<Rightarrow> cell" where
  "coerce_date to_date cells x =
     (case x of
        PyStr s \<Rightarrow> (case to_date cells s of None \<Rightarrow> NaT | Some d \<Rightarrow> PyDate d)
      | PyDate d \<Rightarrow> PyDate d
      | _ \<Rightarrow> NaT)"

definition to_datetime_date :: "(cell list \<Rightarrow> string \<Rightarrow> date option) \<Rightarrow> column \<Rightarrow> column" where
  "to_datetime_date to_date c =
     \<lparr>col_dtype = ObjectDtype,
      col_cells = map (coerce_date to_date (col_cells c)) (col_cells c)\<rparr>"

text \<open>\<open>is_object_dtype\<close> and \<open>is_string_dtype\<close> of \<open>pandas.api.types\<close>; the latter
  holds of an object column when all its cells are strings.\<close>

fun is_str :: "cell \<Rightarrow> bool" where
  "is_str (PyStr s) = True"
| "is_str c = False"

definition is_object_dtype :: "column \<Rightarrow> bool" where
  "is_object_dtype c = (col_dtype c = ObjectDtype)"

definition is_string_dtype :: "column \<Rightarrow> bool" where
  "is_string_dtype c =
     (col_dtype c = StringDtype \<or> (col_dtype c = ObjectDtype \<and> list_all is_str (col_cells c)))"

text \<open>\<open>isinstance(d, date)\<close>: pandas' \<open>NaT\<close> is an instance of a subclass of
  \<open>datetime\<close>, hence of \<open>date\<close>.\<close>

fun isinstance_date :: "cell \<Rightarrow> bool" where
  "isinstance_date (PyDate d) = True"
| "isinstance_date NaT = True"
| "isinstance_date c = False"

section \<open>ResourceFlattener and FHIRDataFrame\<close>

text \<open>The dictionary \<open>resource_columns\<close> that \<open>ResourceFlattener.__init__\<close> builds.\<close>

definition resource_columns :: "(FHIRResourceType \<times> ColumnNames list) list" where
  "resource_columns =
     [(OBSERVATION,
       [USER_ID, EFFECTIVE_DATE_TIME, QUANTITY_NAME, QUANTITY_UNIT, QUANTITY_VALUE,
        LOINC_CODE, DISPLAY, APPLE_HEALTH_KIT_CODE]),
      (QUESTIONNAIRE_RESPONSE,
       [USER_ID, EFFECTIVE_DATE_TIME, QUANTITY_NAME, QUANTITY_VALUE, LOINC_CODE])]"

record ResourceFlattener =
  flattener_resource_type :: FHIRResourceType
  flattener_resource_columns :: "(FHIRResourceType \<times> ColumnNames list) list"

definition ResourceFlattener_init :: "FHIRResourceType \<Rightarrow> py_error + ResourceFlattener" where
  "ResourceFlattener_init rt =
     (if map_of resource_columns rt = None
      then Inl (ValueError (''Unsupported resource type: '' @ resource_type_name rt))
      else Inr \<lparr>flattener_resource_type = rt, flattener_resource_columns = resource_columns\<rparr>)"

record FHIRDataFrame =
  data_frame :: DataFrame
  resource_type :: FHIRResourceType
  frame_resource_columns :: "(FHIRResourceType \<times> ColumnNames list) list"

definition FHIRDataFrame_init :: "DataFrame \<Rightarrow> FHIRResourceType \<Rightarrow> py_error + FHIRDataFrame" where
  "FHIRDataFrame_init data rt =
     bind_err (ResourceFlattener_init rt) (\<lambda>flattener.
       if map_of (flattener_resource_columns flattener) rt = None
       then Inl (ValueError (''Unsupported resource type: '' @ resource_type_str rt))
       else Inr \<lparr>data_frame = data, resource_type = rt,
                 frame_resource_columns = flattener_resource_columns flattener\<rparr>)"

subsection \<open>FHIRDataFrame.validate_columns\<close>

definition required_columns :: "FHIRDataFrame \<Rightarrow> string list" where
  "required_columns self =
     map column_value
       (case map_of (frame_resource_columns self) (resource_type self) of
          None \<Rightarrow> []
        | Some cols \<Rightarrow> cols)"

definition missing_columns :: "FHIRDataFrame \<Rightarrow> string list" where
  "missing_columns self =
     filter (\<lambda>col. col \<notin> set (df_columns (data_frame self))) (required_columns self)"

text \<open>
  The columns the last loop visits: \<open>set(required_columns)\<close> without the two exempt
  headers. Python fixes no order for the elements of a set, so the loop is modelled over
  a list \<open>order\<close> that enumerates this set.
\<close>

definition string_columns :: "FHIRDataFrame \<Rightarrow> string set" where
  "string_columns self =
     set (required_columns self) - {column_value EFFECTIVE_DATE_TIME, column_value QUANTITY_VALUE}"

fun check_string_columns :: "DataFrame \<Rightarrow> string list \<Rightarrow> py_error + unit" where
  "check_string_columns df [] = Inr ()"
| "check_string_columns df (col # rest) =
     (case map_of df col of
        None \<Rightarrow> check_string_columns df rest
      | Some c \<Rightarrow>
          if \<not> (is_string_dtype c \<or> is_object_dtype c)
          then Inl (ValueError (''The '' @ quoted col @ '' column does not contain strings.''))
          else check_string_columns df rest)"

definition validate_columns :: "string list \<Rightarrow> FHIRDataFrame \<Rightarrow> py_error + bool" where
  "validate_columns order self =
     (if missing_columns self \<noteq> []
      then Inl (ValueError (''The DataFrame is missing required columns: ''
                            @ join '', '' (missing_columns self)))
      else if (case map_of (data_frame self) (column_value EFFECTIVE_DATE_TIME) of
                 None \<Rightarrow> False
               | Some c \<Rightarrow> \<not> list_all isinstance_date (col_cells c))
      then Inl (ValueError (''The '' @ column_value EFFECTIVE_DATE_TIME
                            @ '' column is not of typedatetime.date.''))
      else bind_err (check_string_columns (data_frame self) order) (\<lambda>_. Inr True))"

section \<open>ObservationFlattener.flatten and flatten_fhir_resources\<close>

text \<open>The loop of lines 305 to 343: the rows in the order of the records, or the
  exception of the first record whose row cannot be built.\<close>

fun flatten_entries :: "observation list \<Rightarrow> py_error + (string \<times> cell) list list" where
  "flatten_entries [] = Inr []"
| "flatten_entries (observation # rest) =
     bind_err (flatten_entry observation) (\<lambda>flattened_entry.
     bind_err (flatten_entries rest) (\<lambda>flattened_data.
     Inr (flattened_entry # flattened_data)))"

definition ObservationFlattener_flatten ::
  "(cell list \<Rightarrow> dtype) \<Rightarrow> (cell list \<Rightarrow> string \<Rightarrow> date option) \<Rightarrow> observation list
   \<Rightarrow> py_error + FHIRDataFrame" where
  "ObservationFlattener_flatten infer_dtype to_date resources =
     bind_err (flatten_entries resources) (\<lambda>flattened_data.
     let flattened_df = pd_DataFrame infer_dtype flattened_data in
     bind_err (df_getitem flattened_df (column_value EFFECTIVE_DATE_TIME)) (\<lambda>c.
     FHIRDataFrame_init
       (df_setitem flattened_df (column_value EFFECTIVE_DATE_TIME) (to_datetime_date to_date c))
       OBSERVATION))"

text \<open>
  \<open>flatten_fhir_resources\<close>, with what it prints. The dictionary \<open>flattener_classes\<close>
  has the one key \<open>"Observation"\<close>, a string, so a \<open>resource_type\<close> that is a member of
  the enumeration finds nothing. The message of the \<open>ValueError\<close> reads
  \<open>resource_type.name\<close>, which a string does not have: building the message raises
  \<open>AttributeError\<close> before the \<open>ValueError\<close> exists.
\<close>

datatype flattener_class = ObservationFlattenerClass

definition flattener_classes :: "(string \<times> flattener_class) list" where
  "flattener_classes = [(resource_type_value OBSERVATION, ObservationFlattenerClass)]"

fun flattener_classes_get :: "kind_tag \<Rightarrow> flattener_class option" where
  "flattener_classes_get (StrTag s) = map_of flattener_classes s"
| "flattener_classes_get (EnumTag rt) = None"

fun no_flattener_error :: "kind_tag \<Rightarrow> py_error" where
  "no_flattener_error (StrTag s) =
     AttributeError (quoted ''str'' @ '' object has no attribute '' @ quoted ''name'')"
| "no_flattener_error (EnumTag rt) =
     ValueError (''No flattener found for resource type: '' @ resource_type_name rt)"

definition flatten_fhir_resources ::
  "(cell list \<Rightarrow> dtype) \<Rightarrow> (cell list \<Rightarrow> string \<Rightarrow> date option) \<Rightarrow> observation list
   \<Rightarrow> string list \<times> (py_error + FHIRDataFrame option)" where
  "flatten_fhir_resources infer_dtype to_date resources =
     (if resources = [] then ([''No data available.''], Inr None)
      else
        let rt = obs_resource_type (resources ! 0) in
        case flattener_classes_get rt of
          None \<Rightarrow> ([], Inl (no_flattener_error rt))
        | Some ObservationFlattenerClass \<Rightarrow>
            ([], bind_err (ResourceFlattener_init OBSERVATION) (\<lambda>flattener.
                 bind_err (ObservationFlattener_flatten infer_dtype to_date resources) (\<lambda>frame.
                 Inr (Some frame)))))"

section \<open>DataVisualizer.create_static_plot\<close>

text \<open>
  \<open>start_date\<close> and \<open>end_date\<close> hold what \<open>set_date_range\<close> stored, a string, or
  what \<open>create_static_plot\<close> stored, a \<open>datetime.date\<close>.
\<close>

datatype date_setting = DateStr string | DateObj date

record DataVisualizer =
  start_date :: "date_setting option"
  end_date :: "date_setting option"
  user_ids :: "string list option"
  y_lower :: rat
  y_upper :: rat
  combine_plots :: bool
  dpi :: rat

definition DataVisualizer_init :: DataVisualizer where
  "DataVisualizer_init =
     \<lparr>start_date = None, end_date = None, user_ids = None, y_lower = 50, y_upper = 1000,
      combine_plots = True, dpi = 300\<rparr>"

definition set_date_range :: "DataVisualizer \<Rightarrow> string \<Rightarrow> string \<Rightarrow> DataVisualizer" where
  "set_date_range self start_date' end_date' =
     self\<lparr>start_date := Some (DateStr start_date'), end_date := Some (DateStr end_date')\<rparr>"

text \<open>The truth value of a date setting: \<open>None\<close> and \<open>""\<close> are false.\<close>

fun setting_truthy :: "date_setting option \<Rightarrow> bool" where
  "setting_truthy None = False"
| "setting_truthy (Some (DateStr s)) = (s \<noteq> [])"
| "setting_truthy (Some (DateObj d)) = True"

text \<open>
  \<open>datetime.strptime(v, "%Y-%m-%d").date()\<close>. How the standard library reads a string
  is the parameter \<open>strptime\<close>; anything that is not a string is a \<open>TypeError\<close>.
\<close>

fun strptime_date :: "(string \<Rightarrow> py_error + date) \<Rightarrow> date_setting option \<Rightarrow> py_error + date" where
  "strptime_date strptime (Some (DateStr s)) = strptime s"
| "strptime_date strptime (Some (DateObj d)) =
     Inl (TypeError ''strptime() argument 1 must be str, not datetime.date'')"
| "strptime_date strptime None =
     Inl (TypeError ''strptime() argument 1 must be str, not None'')"

text \<open>\<open>series.iloc[0]\<close> and \<open>series.nunique()\<close>, which does not count missing values.\<close>

definition iloc0 :: "column \<Rightarrow> py_error + cell" where
  "iloc0 c =
     (case col_cells c of
        [] \<Rightarrow> Inl (IndexError ''single positional indexer is out-of-bounds'')
      | x # xs \<Rightarrow> Inr x)"

fun is_missing :: "cell \<Rightarrow> bool" where
  "is_missing PyNone = True"
| "is_missing NaN = True"
| "is_missing NaT = True"
| "is_missing c = False"

definition nunique :: "column \<Rightarrow> nat" where
  "nunique c = length (remdups (filter (\<lambda>x. \<not> is_missing x) (col_cells c)))"

text \<open>
  Lines 118 to 121: the two assignments to \<open>self\<close>. The visualizer is returned as the
  statements leave it, also when the second one raises.
\<close>

definition parse_date_range ::
  "(string \<Rightarrow> py_error + date) \<Rightarrow> DataVisualizer \<Rightarrow> DataVisualizer \<times> (py_error + unit)" where
  "parse_date_range strptime self =
     (case (if setting_truthy (start_date self)
            then (case strptime_date strptime (start_date self) of
                    Inl e \<Rightarrow> (self, Inl e)
                  | Inr d \<Rightarrow> (self\<lparr>start_date := Some (DateObj d)\<rparr>, Inr ()))
            else (self, Inr ())) of
        (self1, Inl e) \<Rightarrow> (self1, Inl e)
      | (self1, Inr u) \<Rightarrow>
          if setting_truthy (end_date self1)
          then (case strptime_date strptime (end_date self1) of
                  Inl e \<Rightarrow> (self1, Inl e)
                | Inr d \<Rightarrow> (self1\<lparr>end_date := Some (DateObj d)\<rparr>, Inr ()))
          else (self1, Inr ()))"

text \<open>
  \<open>create_static_plot\<close>: the visualizer after the call, what the call printed, and
  what it returned or raised. \<open>processor_validate\<close> is \<open>validate_columns\<close> of the base
  class \<open>FHIRDataProcessor\<close>, whose module is not part of the sources; \<open>render\<close> is
  lines 122 to 195, the filtering and the calls of the charting library, which read
  \<open>self\<close> and assign nothing to it.
\<close>

definition create_static_plot ::
  "(FHIRDataFrame \<Rightarrow> py_error + unit) \<Rightarrow> (string \<Rightarrow> py_error + date)
   \<Rightarrow> (DataVisualizer \<Rightarrow> DataFrame \<Rightarrow> py_error + 'fig option)
   \<Rightarrow> DataVisualizer \<Rightarrow> FHIRDataFrame
   \<Rightarrow> DataVisualizer \<times> string list \<times> (py_error + 'fig option)" where
  "create_static_plot processor_validate strptime render self frame =
     (case bind_err (df_getitem (data_frame frame) ''EffectiveDateTime'') iloc0 of
        Inl e \<Rightarrow> (self, [], Inl e)
      | Inr first_cell \<Rightarrow>
          if \<not> isinstance_date first_cell
          then (self, [''The date type should be of type date.''], Inr None)
          else
            (case df_getitem (data_frame frame) ''LoincCode'' of
               Inl e \<Rightarrow> (self, [], Inl e)
             | Inr loinc \<Rightarrow>
                 if nunique loinc \<noteq> 1
                 then (self,
                       [''Error: More than one unique LoincCode found.''
                        @ ''Each plot should be based on a single LoincCode.''],
                       Inr None)
                 else
                   (case processor_validate frame of
                      Inl e \<Rightarrow> (self, [], Inl e)
                    | Inr u \<Rightarrow>
                        (case parse_date_range strptime self of
                           (self', Inl e) \<Rightarrow> (self', [], Inl e)
                         | (self', Inr u') \<Rightarrow> (self', [], render self' (data_frame frame))))))"

section \<open>Notions used to state the properties\<close>

text \<open>The eight headers of the Observation schema, in the order of the schema.\<close>

definition observation_headers :: "string list" where
  "observation_headers =
     [''UserId'', ''EffectiveDateTime'', ''QuantityName'', ''QuantityUnit'', ''QuantityValue'',
      ''LoincCode'', ''Display'', ''AppleHealthKitCode'']"

text \<open>\<open>df[key].iloc[i]\<close>, where the column and the row exist.\<close>

definition df_cell :: "DataFrame \<Rightarrow> string \<Rightarrow> nat \<Rightarrow> cell option" where
  "df_cell df key i =
     (case map_of df key of
        None \<Rightarrow> None
      | Some c \<Rightarrow> if i < length (col_cells c) then Some (col_cells c ! i) else None)"

text \<open>
  A record that meets the input contract: a coding list whose entries all have a code
  and a display text, a subject with an identifier, and a value quantity with a unit
  and a value.
\<close>

definition well_formed :: "observation \<Rightarrow> bool" where
  "well_formed observation =
     ((case obs_code observation of
         None \<Rightarrow> False
       | Some code \<Rightarrow>
           (case concept_coding code of
              None \<Rightarrow> False
            | Some coding \<Rightarrow>
                list_all (\<lambda>e. coding_code e \<noteq> None \<and> coding_display e \<noteq> None) coding))
      \<and> (case obs_subject observation of
            None \<Rightarrow> False
          | Some subject \<Rightarrow> reference_id subject \<noteq> None)
      \<and> (case obs_valueQuantity observation of
            None \<Rightarrow> False
          | Some q \<Rightarrow> quantity_unit q \<noteq> None \<and> quantity_value q \<noteq> None))"

text \<open>The column that \<open>pd.DataFrame\<close> builds for a key: the cell of every row.\<close>

definition cells_of :: "(string \<times> cell) list list \<Rightarrow> string \<Rightarrow> cell list" where
  "cells_of data key = map (\<lambda>row. case map_of row key of None \<Rightarrow> NaN | Some c \<Rightarrow> c) data"

text \<open>The table \<open>flatten\<close> returns for the rows of a batch, column by column.\<close>

definition flattened_table ::
  "(cell list \<Rightarrow> dtype) \<Rightarrow> (cell list \<Rightarrow> string \<Rightarrow> date option) \<Rightarrow> (string \<times> cell) list list
   \<Rightarrow> DataFrame" where
  "flattened_table infer_dtype to_date rows =
     map (\<lambda>key. (key,
            if key = ''EffectiveDateTime''
            then \<lparr>col_dtype = ObjectDtype,
                  col_cells = map (coerce_date to_date (cells_of rows key)) (cells_of rows key)\<rparr>
            else \<lparr>col_dtype = infer_dtype (cells_of rows key), col_cells = cells_of rows key\<rparr>))
       observation_headers"

text \<open>The EffectiveDateTime column as the rows give it, before it is parsed.\<close>

definition effective_column :: "observation list \<Rightarrow> cell list" where
  "effective_column resources = map (\<lambda>r. cell_of_str (effective_datetime r)) resources"

text \<open>The timestamps of a record as the input contract has them, ISO-8601 strings: a
  timestamp that is present is not the empty string.\<close>

definition timestamps_in_contract :: "observation \<Rightarrow> bool" where
  "timestamps_in_contract observation =
     (obs_effectiveDateTime observation \<noteq> Some ''''
      \<and> (case obs_effectivePeriod observation of
            None \<Rightarrow> True
          | Some effective_period \<Rightarrow> period_start effective_period \<noteq> Some ''''))"

text \<open>
  The fields a record may lack. The coding list is absent when there is no \<open>code\<close> or
  no \<open>coding\<close> in it. The subject is told apart from its identifier: a record may have
  no subject at all, or a subject without an \<open>id\<close>.
\<close>

definition lacks_coding_list :: "observation \<Rightarrow> bool" where
  "lacks_coding_list observation =
     (case obs_code observation of None \<Rightarrow> True | Some code \<Rightarrow> concept_coding code = None)"

definition lacks_value_quantity :: "observation \<Rightarrow> bool" where
  "lacks_value_quantity observation = (obs_valueQuantity observation = None)"

definition lacks_subject :: "observation \<Rightarrow> bool" where
  "lacks_subject observation = (obs_subject observation = None)"

definition lacks_subject_id :: "observation \<Rightarrow> bool" where
  "lacks_subject_id observation =
     (case obs_subject observation of None \<Rightarrow> False | Some subject \<Rightarrow> reference_id subject = None)"

text \<open>A record with its subject replaced by a subject that has no \<open>id\<close>.\<close>

definition without_subject_id :: "observation \<Rightarrow> observation" where
  "without_subject_id observation = observation\<lparr>obs_subject := Some \<lparr>reference_id = None\<rparr>\<rparr>"

text \<open>The entries of a coding list that \<open>flatten\<close> reads, the first two, have a code and
  a display text.\<close>

definition coding_readable :: "coding_entry list \<Rightarrow> bool" where
  "coding_readable coding =
     list_all (\<lambda>e. coding_code e \<noteq> None \<and> coding_display e \<noteq> None) (take 2 coding)"

text \<open>The exceptions of a failed lookup.\<close>

fun is_lookup_error :: "py_error \<Rightarrow> bool" where
  "is_lookup_error (KeyError key) = True"
| "is_lookup_error (AttributeError msg) = True"
| "is_lookup_error e = False"

text \<open>The EffectiveDateTime column of a frame, when there is one, holds dates only: the
  test of lines 168 to 172.\<close>

definition effective_dates_ok :: "FHIRDataFrame \<Rightarrow> bool" where
  "effective_dates_ok self =
     (case map_of (data_frame self) ''EffectiveDateTime'' of
        None \<Rightarrow> True
      | Some c \<Rightarrow> list_all isinstance_date (col_cells c))"

text \<open>The required columns that the table of a frame does not have.\<close>

definition absent_columns :: "FHIRDataFrame \<Rightarrow> string set" where
  "absent_columns self =
     {col \<in> set (required_columns self). col \<notin> set (df_columns (data_frame self))}"

section \<open>Example records\<close>

text \<open>A date parser that reads one string, and a dtype inference that always answers
  \<open>object\<close>, as stand-ins for pandas where a concrete batch is evaluated.\<close>

definition example_to_date :: "cell list \<Rightarrow> string \<Rightarrow> date option" where
  "example_to_date cells s = (if s = ''2024-01-15'' then Some (Date 2024 1 15) else None)"

definition example_infer_dtype :: "cell list \<Rightarrow> dtype" where
  "example_infer_dtype cells = ObjectDtype"

definition heart_rate :: coding_entry where
  "heart_rate = \<lparr>coding_code = Some ''8867-4'', coding_display = Some ''Heart rate''\<rparr>"

definition healthkit_heart_rate :: coding_entry where
  "healthkit_heart_rate =
     \<lparr>coding_code = Some ''HKQuantityTypeIdentifierHeartRate'',
      coding_display = Some ''Heart Rate''\<rparr>"

definition example_observation ::
  "string option \<Rightarrow> period option \<Rightarrow> coding_entry list \<Rightarrow> observation" where
  "example_observation dt p coding =
     \<lparr>obs_resource_type = StrTag ''Observation'',
      obs_effectiveDateTime = dt,
      obs_effectivePeriod = p,
      obs_code = Some \<lparr>concept_coding = Some coding\<rparr>,
      obs_subject = Some \<lparr>reference_id = Some ''user-1''\<rparr>,
      obs_valueQuantity = Some \<lparr>quantity_unit = Some ''beats/minute'', quantity_value = Some 72\<rparr>\<rparr>"

definition example_batch :: "observation list" where
  "example_batch =
     [example_observation (Some ''2024-01-15'') None [],
      example_observation None (Some \<lparr>period_start = Some ''2024-01-15''\<rparr>) [heart_rate],
      example_observation None None [heart_rate, healthkit_heart_rate]]"

text \<open>A record whose \<open>effectiveDateTime\<close> is the empty string, one without a value
  quantity, and one whose \<open>resource_type\<close> is the string \<open>"QuestionnaireResponse"\<close>.\<close>

definition empty_timestamp_observation :: observation where
  "empty_timestamp_observation =
     example_observation (Some '''') (Some \<lparr>period_start = Some ''2024-01-15''\<rparr>) [heart_rate]"

definition no_quantity_observation :: observation where
  "no_quantity_observation =
     (example_observation (Some ''2024-01-15'') None [heart_rate])\<lparr>obs_valueQuantity := None\<rparr>"

definition questionnaire_response :: observation where
  "questionnaire_response =
     (example_observation None None [])\<lparr>obs_resource_type := StrTag ''QuestionnaireResponse''\<rparr>"

text \<open>A table of two rows with the eight columns of the Observation schema, the frame
  of kind Observation around a table, and a table without one of its columns.\<close>

definition str_column :: "string list \<Rightarrow> column" where
  "str_column xs = \<lparr>col_dtype = ObjectDtype, col_cells = map PyStr xs\<rparr>"

definition example_table :: DataFrame where
  "example_table =
     [(''UserId'', str_column [''user-1'', ''user-1'']),
      (''EffectiveDateTime'',
         \<lparr>col_dtype = ObjectDtype,
          col_cells = [PyDate (Date 2024 1 15), PyDate (Date 2024 1 16)]\<rparr>),
      (''QuantityName'', str_column [''Heart rate'', ''Heart rate'']),
      (''QuantityUnit'', str_column [''beats/minute'', ''beats/minute'']),
      (''QuantityValue'', \<lparr>col_dtype = NumericDtype, col_cells = [PyNum 72, PyNum 75]\<rparr>),
      (''LoincCode'', str_column [''8867-4'', ''8867-4'']),
      (''Display'', str_column [''Heart rate'', ''Heart rate'']),
      (''AppleHealthKitCode'', str_column [''8867-4'', ''8867-4''])]"

definition observation_frame :: "DataFrame \<Rightarrow> FHIRDataFrame" where
  "observation_frame table =
     \<lparr>data_frame = table, resource_type = OBSERVATION, frame_resource_columns = resource_columns\<rparr>"

definition without_column :: "string \<Rightarrow> DataFrame \<Rightarrow> DataFrame" where
  "without_column key df = filter (\<lambda>(k, c). k \<noteq> key) df"

text \<open>One order in which the loop of \<open>validate_columns\<close> may visit the string columns
  of an Observation frame.\<close>

definition example_order :: "string list" where
  "example_order =
     [''Display'', ''UserId'', ''AppleHealthKitCode'', ''QuantityName'', ''LoincCode'',
      ''QuantityUnit'']"

text \<open>Stand-ins for the validation of the base class, for \<open>strptime\<close> and for the
  charting, where a call of \<open>create_static_plot\<close> is evaluated.\<close>

definition example_validate :: "FHIRDataFrame \<Rightarrow> py_error + unit" where
  "example_validate frame = Inr ()"

definition example_strptime :: "string \<Rightarrow> py_error + date" where
  "example_strptime s =
     (if s = ''2024-01-15'' then Inr (Date 2024 1 15)
      else if s = ''2024-01-31'' then Inr (Date 2024 1 31)
      else Inl (ValueError (''time data '' @ quoted s @ '' does not match format ''
                            @ quoted ''%Y-%m-%d'')))"

definition example_render :: "DataVisualizer \<Rightarrow> DataFrame \<Rightarrow> py_error + nat option" where
  "example_render self df = Inr (Some (length df))"

text \<open>A visualizer with a date range set, and the example table with two LOINC codes.\<close>

definition example_visualizer :: DataVisualizer where
  "example_visualizer = set_date_range DataVisualizer_init ''2024-01-15'' ''2024-01-31''"


text \<open>A record whose subject has no \<open>id\<close>, and the example table with a missing value
  for its first timestamp.\<close>

definition no_id_observation :: observation where
  "no_id_observation =
     without_subject_id (example_observation (Some ''2024-01-15'') None [heart_rate])"


section \<open>Sequencing and table lemmas\<close>

lemma bind_err_Inr_iff: "bind_err m f = Inr y \<longleftrightarrow> (\<exists>v. m = Inr v \<and> f v = Inr y)"
  by (cases m) (simp_all add: bind_err_def)

lemma bind_err_Inl_iff:
  "bind_err m f = Inl e \<longleftrightarrow> (m = Inl e \<or> (\<exists>v. m = Inr v \<and> f v = Inl e))"
  by (cases m) (simp_all add: bind_err_def)

lemma bind_err_simps: "bind_err (Inl e) f = Inl e" "bind_err (Inr v) f = f v"
  by (simp_all add: bind_err_def)

section \<open>The shape of what flatten returns\<close>

lemma flatten_entry_keys:
  assumes "flatten_entry r = Inr row"
  shows "map fst row = observation_headers"
  using assms unfolding flatten_entry_def bind_err_Inr_iff
  by (auto simp: observation_headers_def)

lemma flatten_entries_Inr_iff:
  "flatten_entries rs = Inr rows \<longleftrightarrow> list_all2 (\<lambda>r row. flatten_entry r = Inr row) rs rows"
proof (induction rs arbitrary: rows)
  case Nil
  show ?case by auto
next
  case (Cons r rs)
  show ?case
    by (cases rows) (auto simp: bind_err_Inr_iff Cons.IH)
qed

lemma first_seen_append_distinct:
  assumes "distinct ks" "set ys \<subseteq> set ks"
  shows "first_seen (ks @ ys) = ks"
proof -
  have "remdups (rev ys @ rev ks) = remdups (rev ks)"
    using assms(2) by (intro remdups_append) simp
  moreover have "remdups (rev ks) = rev ks"
    using assms(1) by simp
  ultimately show ?thesis
    by (simp add: first_seen_def)
qed

lemma first_seen_uniform:
  assumes "rows \<noteq> []" "\<forall>row \<in> set rows. map fst row = ks" "distinct ks"
  shows "first_seen (concat (map (map fst) rows)) = ks"
proof -
  obtain row rest where rows: "rows = row # rest" using assms(1) by (cases rows) auto
  have "set (concat (map (map fst) rest)) \<subseteq> set ks"
    using assms(2) rows by auto
  moreover have "concat (map (map fst) rows) = ks @ concat (map (map fst) rest)"
    using assms(2) rows by simp
  ultimately show ?thesis
    using assms(3) by (simp add: first_seen_append_distinct)
qed

lemma distinct_observation_headers: "distinct observation_headers"
  by (simp add: observation_headers_def)

lemma pd_DataFrame_rows:
  assumes "flatten_entries rs = Inr rows" "rs \<noteq> []"
  shows "pd_DataFrame infer rows =
     map (\<lambda>key. (key, \<lparr>col_dtype = infer (cells_of rows key), col_cells = cells_of rows key\<rparr>))
       observation_headers"
proof -
  have all: "list_all2 (\<lambda>r row. flatten_entry r = Inr row) rs rows"
    using assms(1) by (simp add: flatten_entries_Inr_iff)
  then have "rows \<noteq> []" using assms(2) by (cases rows) auto
  moreover have "\<forall>row \<in> set rows. map fst row = observation_headers"
  proof
    fix row assume "row \<in> set rows"
    then obtain i where i: "i < length rows" "rows ! i = row"
      by (auto simp: in_set_conv_nth)
    with all have "flatten_entry (rs ! i) = Inr row"
      by (auto simp: list_all2_conv_all_nth)
    then show "map fst row = observation_headers"
      by (rule flatten_entry_keys)
  qed
  ultimately have "first_seen (concat (map (map fst) rows)) = observation_headers"
    by (rule first_seen_uniform) (rule distinct_observation_headers)
  then show ?thesis
    by (simp add: pd_DataFrame_def cells_of_def Let_def)
qed

lemma flatten_Inr:
  assumes "flatten_entries rs = Inr rows" "rs \<noteq> []"
  shows "ObservationFlattener_flatten infer to_date rs =
     Inr \<lparr>data_frame = flattened_table infer to_date rows, resource_type = OBSERVATION,
          frame_resource_columns = resource_columns\<rparr>"
proof -
  have df: "pd_DataFrame infer rows =
     map (\<lambda>key. (key, \<lparr>col_dtype = infer (cells_of rows key), col_cells = cells_of rows key\<rparr>))
       observation_headers"
    using assms by (rule pd_DataFrame_rows)
  show ?thesis
    unfolding ObservationFlattener_flatten_def assms(1) bind_err_simps Let_def df
    by (simp add: observation_headers_def df_getitem_def getitem_def bind_err_def
        to_datetime_date_def FHIRDataFrame_init_def ResourceFlattener_init_def
        resource_columns_def flattened_table_def)
qed

lemma flatten_Inr_D:
  assumes "ObservationFlattener_flatten infer to_date rs = Inr frame"
  shows "\<exists>rows. flatten_entries rs = Inr rows \<and> rs \<noteq> [] \<and>
     frame = \<lparr>data_frame = flattened_table infer to_date rows, resource_type = OBSERVATION,
          frame_resource_columns = resource_columns\<rparr>"
proof -
  obtain rows where rows: "flatten_entries rs = Inr rows"
    using assms unfolding ObservationFlattener_flatten_def bind_err_Inr_iff by blast
  have "rs \<noteq> []"
  proof
    assume "rs = []"
    then have "rows = []" using rows by simp
    then show False
      using assms rows
      by (simp add: ObservationFlattener_flatten_def bind_err_def pd_DataFrame_def
          first_seen_def df_getitem_def getitem_def)
  qed
  with rows assms flatten_Inr [OF rows this, of infer to_date] show ?thesis by auto
qed

lemma length_cells_of: "length (cells_of rows key) = length rows"
  by (simp add: cells_of_def)

lemma cells_of_nth:
  "i < length rows \<Longrightarrow>
   cells_of rows key ! i = (case map_of (rows ! i) key of None \<Rightarrow> NaN | Some c \<Rightarrow> c)"
  by (simp add: cells_of_def)

lemma df_columns_flattened_table:
  "df_columns (flattened_table infer to_date rows) = observation_headers"
  by (simp add: df_columns_def flattened_table_def comp_def)

lemma map_of_flattened_table:
  "key \<in> set observation_headers \<Longrightarrow>
   map_of (flattened_table infer to_date rows) key =
     Some (if key = ''EffectiveDateTime''
           then \<lparr>col_dtype = ObjectDtype,
                 col_cells = map (coerce_date to_date (cells_of rows key)) (cells_of rows key)\<rparr>
           else \<lparr>col_dtype = infer (cells_of rows key), col_cells = cells_of rows key\<rparr>)"
  unfolding flattened_table_def
  by (simp add: map_of_map_restrict restrict_map_def)

lemma flattened_table_rows:
  "list_all (\<lambda>(key, c). length (col_cells c) = length rows) (flattened_table infer to_date rows)"
  by (simp add: flattened_table_def list_all_iff length_cells_of)

lemma df_cell_flattened_table:
  assumes "key \<in> set observation_headers" "i < length rows"
  shows "df_cell (flattened_table infer to_date rows) key i =
     Some (if key = ''EffectiveDateTime''
           then coerce_date to_date (cells_of rows key) (cells_of rows key ! i)
           else cells_of rows key ! i)"
  using assms by (simp add: df_cell_def map_of_flattened_table length_cells_of)

lemma flatten_entry_row:
  assumes "flatten_entry r = Inr row"
  shows "\<exists>code coding lc d ahk qn uid q u v.
     obs_code r = Some code \<and> concept_coding code = Some coding \<and>
     loinc_code_of coding = Inr lc \<and> display_of coding = Inr d \<and>
     apple_healthkit_code_of coding = Inr ahk \<and> quantity_name_of coding = Inr qn \<and>
     subject_id r = Inr uid \<and> obs_valueQuantity r = Some q \<and>
     quantity_unit q = Some u \<and> quantity_value q = Some v \<and>
     row = [(''UserId'', cell_of_str uid),
            (''EffectiveDateTime'', cell_of_str (effective_datetime r)),
            (''QuantityName'', PyStr qn), (''QuantityUnit'', PyStr u),
            (''QuantityValue'', PyNum v), (''LoincCode'', PyStr lc),
            (''Display'', PyStr d), (''AppleHealthKitCode'', PyStr ahk)]"
  using assms unfolding flatten_entry_def bind_err_Inr_iff
  by (auto simp: getitem_def split: option.splits)

lemma well_formed_flatten_entry:
  assumes "well_formed r"
  shows "\<exists>row. flatten_entry r = Inr row"
proof -
  obtain code coding s q where f:
    "obs_code r = Some code" "concept_coding code = Some coding"
    "list_all (\<lambda>e. coding_code e \<noteq> None \<and> coding_display e \<noteq> None) coding"
    "obs_subject r = Some s" "obs_valueQuantity r = Some q"
    "quantity_unit q \<noteq> None" "quantity_value q \<noteq> None"
    using assms by (auto simp: well_formed_def split: option.splits)
  have e: "\<And>i. i < length coding \<Longrightarrow> coding_code (coding ! i) \<noteq> None \<and> coding_display (coding ! i) \<noteq> None"
    using f(3) by (simp add: list_all_length)
  have "\<exists>v. loinc_code_of coding = Inr v" "\<exists>v. display_of coding = Inr v"
    "\<exists>v. apple_healthkit_code_of coding = Inr v" "\<exists>v. quantity_name_of coding = Inr v"
    using e [of 0] e [of 1]
    by (auto simp: loinc_code_of_def display_of_def apple_healthkit_code_of_def
        quantity_name_of_def getitem_def)
  then show ?thesis
    using f(1,2,4,5,6,7)
    by (auto simp: flatten_entry_def getitem_def subject_id_def bind_err_def)
qed

lemma well_formed_flatten_entries:
  "list_all well_formed rs \<Longrightarrow> \<exists>rows. flatten_entries rs = Inr rows"
proof (induction rs)
  case Nil
  show ?case by simp
next
  case (Cons r rs)
  then obtain row rows where "flatten_entry r = Inr row" "flatten_entries rs = Inr rows"
    using well_formed_flatten_entry [of r] by auto
  then show ?case by (simp add: bind_err_def)
qed

lemma flatten_entry_effective_cell:
  "flatten_entry r = Inr row \<Longrightarrow>
   map_of row ''EffectiveDateTime'' = Some (cell_of_str (effective_datetime r))"
  by (drule flatten_entry_row) auto

lemma flatten_entry_map_of:
  assumes "flatten_entry r = Inr row" "key \<in> set observation_headers"
  shows "\<exists>c. map_of row key = Some c"
proof -
  have "key \<in> fst ` set row"
    using flatten_entry_keys [OF assms(1)] assms(2) by (metis set_map)
  then show ?thesis
    by (metis map_of_eq_None_iff not_Some_eq)
qed

lemma flatten_cell:
  assumes "ObservationFlattener_flatten infer to_date rs = Inr frame" "i < length rs"
  shows "\<exists>row. flatten_entry (rs ! i) = Inr row \<and>
     (\<forall>key \<in> set observation_headers. key \<noteq> ''EffectiveDateTime'' \<longrightarrow>
        df_cell (data_frame frame) key i = map_of row key) \<and>
     df_cell (data_frame frame) ''EffectiveDateTime'' i =
       Some (coerce_date to_date (map (\<lambda>r. cell_of_str (effective_datetime r)) rs)
              (cell_of_str (effective_datetime (rs ! i))))"
proof -
  obtain rows where rows: "flatten_entries rs = Inr rows"
    and frame: "data_frame frame = flattened_table infer to_date rows"
    using flatten_Inr_D [OF assms(1)] by auto
  have all: "list_all2 (\<lambda>r row. flatten_entry r = Inr row) rs rows"
    using rows by (simp add: flatten_entries_Inr_iff)
  then have len: "length rows = length rs"
    by (simp add: list_all2_lengthD)
  have nth: "\<And>j. j < length rs \<Longrightarrow> flatten_entry (rs ! j) = Inr (rows ! j)"
    using all by (simp add: list_all2_conv_all_nth)
  have raw: "cells_of rows ''EffectiveDateTime'' = map (\<lambda>r. cell_of_str (effective_datetime r)) rs"
  proof (rule nth_equalityI)
    show "length (cells_of rows ''EffectiveDateTime'') = length (map (\<lambda>r. cell_of_str (effective_datetime r)) rs)"
      by (simp add: length_cells_of len)
  next
    fix j assume "j < length (cells_of rows ''EffectiveDateTime'')"
    then have j: "j < length rs" by (simp add: length_cells_of len)
    then show "cells_of rows ''EffectiveDateTime'' ! j = map (\<lambda>r. cell_of_str (effective_datetime r)) rs ! j"
      using flatten_entry_effective_cell [OF nth [OF j]] by (simp add: cells_of_nth len)
  qed
  have i: "i < length rows" using assms(2) len by simp
  have "df_cell (data_frame frame) key i = map_of (rows ! i) key"
    if k: "key \<in> set observation_headers" "key \<noteq> ''EffectiveDateTime''" for key
  proof -
    have "\<exists>c. map_of (rows ! i) key = Some c"
      using nth [OF assms(2)] k(1) by (rule flatten_entry_map_of)
    then show ?thesis
      using k i by (auto simp: frame df_cell_flattened_table cells_of_nth)
  qed
  moreover have "df_cell (data_frame frame) ''EffectiveDateTime'' i =
       Some (coerce_date to_date (map (\<lambda>r. cell_of_str (effective_datetime r)) rs)
              (cell_of_str (effective_datetime (rs ! i))))"
  proof -
    have "df_cell (data_frame frame) ''EffectiveDateTime'' i =
       Some (coerce_date to_date (cells_of rows ''EffectiveDateTime'')
              (cells_of rows ''EffectiveDateTime'' ! i))"
      using i by (simp add: frame df_cell_flattened_table observation_headers_def)
    then show ?thesis
      using assms(2) by (simp add: raw)
  qed
  ultimately show ?thesis
    using nth [OF assms(2)] by blast
qed

lemma flatten_well_formed:
  assumes "rs \<noteq> []" "list_all well_formed rs"
  shows "\<exists>frame. ObservationFlattener_flatten infer to_date rs = Inr frame"
proof -
  obtain rows where "flatten_entries rs = Inr rows"
    using well_formed_flatten_entries [OF assms(2)] by blast
  then show ?thesis
    using flatten_Inr [of rs rows infer to_date] assms(1) by blast
qed

lemma example_batch_well_formed: "example_batch \<noteq> [] \<and> list_all well_formed example_batch"
  by (simp add: example_batch_def example_observation_def well_formed_def heart_rate_def
      healthkit_heart_rate_def)

section \<open>Flattening a batch of well-formed records\<close>

text \<open>
  C5. A batch of N well-formed Observation records, N at least 1, is flattened into a
  frame of kind Observation whose table has exactly the eight columns of the
  Observation schema, each with N cells, and whose row \<open>i\<close> holds the cells of the
  record at position \<open>i\<close> of the batch (the timestamp after the column was parsed).
\<close>

theorem flatten_well_formed_batch:
  assumes "resources \<noteq> []" and "list_all well_formed resources"
  shows "\<exists>frame.
      ObservationFlattener_flatten infer_dtype to_date resources = Inr frame
    \<and> resource_type frame = OBSERVATION
    \<and> df_columns (data_frame frame) =
        [''UserId'', ''EffectiveDateTime'', ''QuantityName'', ''QuantityUnit'',
         ''QuantityValue'', ''LoincCode'', ''Display'', ''AppleHealthKitCode'']
    \<and> list_all (\<lambda>(key, c). length (col_cells c) = length resources) (data_frame frame)
    \<and> (\<forall>i < length resources. \<exists>row.
          flatten_entry (resources ! i) = Inr row
        \<and> (\<forall>key \<in> set observation_headers. key \<noteq> ''EffectiveDateTime'' \<longrightarrow>
             df_cell (data_frame frame) key i = map_of row key)
        \<and> df_cell (data_frame frame) ''EffectiveDateTime'' i =
            Some (coerce_date to_date (map (\<lambda>r. cell_of_str (effective_datetime r)) resources)
                   (cell_of_str (effective_datetime (resources ! i)))))"
proof -
  obtain rows where rows: "flatten_entries resources = Inr rows"
    using well_formed_flatten_entries [OF assms(2)] by blast
  let ?frame = "\<lparr>data_frame = flattened_table infer_dtype to_date rows,
                 resource_type = OBSERVATION, frame_resource_columns = resource_columns\<rparr>"
  have ok: "ObservationFlattener_flatten infer_dtype to_date resources = Inr ?frame"
    using rows assms(1) by (rule flatten_Inr)
  have len: "length rows = length resources"
    using rows by (simp add: flatten_entries_Inr_iff list_all2_lengthD)
  have "df_columns (data_frame ?frame) =
        [''UserId'', ''EffectiveDateTime'', ''QuantityName'', ''QuantityUnit'',
         ''QuantityValue'', ''LoincCode'', ''Display'', ''AppleHealthKitCode'']"
    by (simp add: df_columns_flattened_table) (simp add: observation_headers_def)
  moreover have "list_all (\<lambda>(key, c). length (col_cells c) = length resources) (data_frame ?frame)"
    using flattened_table_rows [of rows infer_dtype to_date] by (simp add: len)
  moreover have "resource_type ?frame = OBSERVATION" by simp
  ultimately show ?thesis
    using ok flatten_cell [OF ok] by blast
qed

theorem flatten_well_formed_batch_witness:
  "example_batch \<noteq> [] \<and> list_all well_formed example_batch \<and> length example_batch = 3 \<and>
   (\<exists>frame.
      ObservationFlattener_flatten example_infer_dtype example_to_date example_batch = Inr frame
    \<and> resource_type frame = OBSERVATION
    \<and> df_columns (data_frame frame) =
        [''UserId'', ''EffectiveDateTime'', ''QuantityName'', ''QuantityUnit'',
         ''QuantityValue'', ''LoincCode'', ''Display'', ''AppleHealthKitCode'']
    \<and> list_all (\<lambda>(key, c). length (col_cells c) = 3) (data_frame frame))"
proof -
  have a: "example_batch \<noteq> []" and b: "list_all well_formed example_batch"
    using example_batch_well_formed by simp_all
  have c: "length example_batch = 3" by (simp add: example_batch_def)
  show ?thesis
    using flatten_well_formed_batch [OF a b, of example_infer_dtype example_to_date] a b c
    by auto
qed

section \<open>The cells read from the coding list\<close>

text \<open>
  C1. For every record of a batch that the Observation flattener flattens: when the
  coding list of the record is empty, its LoincCode, Display, AppleHealthKitCode and
  QuantityName cells are the empty string; when the list has the one entry with code
  \<open>c\<close> and display \<open>d\<close>, they are \<open>c\<close>, \<open>d\<close>, \<open>c\<close> and \<open>d\<close>; when it starts with the
  entries \<open>(c1, d1)\<close> and \<open>(c2, d2)\<close>, they are \<open>c1\<close>, \<open>d1\<close>, \<open>c2\<close> and \<open>d2\<close>.
\<close>

theorem coding_cells:
  assumes "ObservationFlattener_flatten infer_dtype to_date resources = Inr frame"
    and "i < length resources"
    and "obs_code (resources ! i) = Some code"
    and "concept_coding code = Some coding"
  shows "(coding = [] \<longrightarrow>
            df_cell (data_frame frame) ''LoincCode'' i = Some (PyStr '''')
          \<and> df_cell (data_frame frame) ''Display'' i = Some (PyStr '''')
          \<and> df_cell (data_frame frame) ''AppleHealthKitCode'' i = Some (PyStr '''')
          \<and> df_cell (data_frame frame) ''QuantityName'' i = Some (PyStr ''''))
       \<and> (\<forall>c d. coding = [\<lparr>coding_code = Some c, coding_display = Some d\<rparr>] \<longrightarrow>
            df_cell (data_frame frame) ''LoincCode'' i = Some (PyStr c)
          \<and> df_cell (data_frame frame) ''Display'' i = Some (PyStr d)
          \<and> df_cell (data_frame frame) ''AppleHealthKitCode'' i = Some (PyStr c)
          \<and> df_cell (data_frame frame) ''QuantityName'' i = Some (PyStr d))
       \<and> (\<forall>c1 d1 c2 d2 rest.
            coding = \<lparr>coding_code = Some c1, coding_display = Some d1\<rparr>
                     # \<lparr>coding_code = Some c2, coding_display = Some d2\<rparr> # rest \<longrightarrow>
            df_cell (data_frame frame) ''LoincCode'' i = Some (PyStr c1)
          \<and> df_cell (data_frame frame) ''Display'' i = Some (PyStr d1)
          \<and> df_cell (data_frame frame) ''AppleHealthKitCode'' i = Some (PyStr c2)
          \<and> df_cell (data_frame frame) ''QuantityName'' i = Some (PyStr d2))"
proof -
  obtain row where row: "flatten_entry (resources ! i) = Inr row"
    and cells: "\<forall>key \<in> set observation_headers. key \<noteq> ''EffectiveDateTime'' \<longrightarrow>
        df_cell (data_frame frame) key i = map_of row key"
    using flatten_cell [OF assms(1,2)] by blast
  obtain lc d ahk qn where vals:
    "loinc_code_of coding = Inr lc" "display_of coding = Inr d"
    "apple_healthkit_code_of coding = Inr ahk" "quantity_name_of coding = Inr qn"
    and r: "map_of row ''LoincCode'' = Some (PyStr lc)" "map_of row ''Display'' = Some (PyStr d)"
      "map_of row ''AppleHealthKitCode'' = Some (PyStr ahk)"
      "map_of row ''QuantityName'' = Some (PyStr qn)"
    using flatten_entry_row [OF row] assms(3,4) by auto
  have c: "df_cell (data_frame frame) ''LoincCode'' i = Some (PyStr lc)"
    "df_cell (data_frame frame) ''Display'' i = Some (PyStr d)"
    "df_cell (data_frame frame) ''AppleHealthKitCode'' i = Some (PyStr ahk)"
    "df_cell (data_frame frame) ''QuantityName'' i = Some (PyStr qn)"
    using cells r by (simp_all add: observation_headers_def)
  show ?thesis
    using vals unfolding c
    by (auto simp: loinc_code_of_def display_of_def apple_healthkit_code_of_def
        quantity_name_of_def getitem_def)
qed

theorem coding_cells_witness:
  "\<exists>frame.
      ObservationFlattener_flatten example_infer_dtype example_to_date example_batch = Inr frame
    \<and> df_cell (data_frame frame) ''LoincCode'' 0 = Some (PyStr '''')
    \<and> df_cell (data_frame frame) ''QuantityName'' 0 = Some (PyStr '''')
    \<and> df_cell (data_frame frame) ''LoincCode'' 1 = Some (PyStr ''8867-4'')
    \<and> df_cell (data_frame frame) ''Display'' 1 = Some (PyStr ''Heart rate'')
    \<and> df_cell (data_frame frame) ''AppleHealthKitCode'' 1 = Some (PyStr ''8867-4'')
    \<and> df_cell (data_frame frame) ''QuantityName'' 1 = Some (PyStr ''Heart rate'')
    \<and> df_cell (data_frame frame) ''LoincCode'' 2 = Some (PyStr ''8867-4'')
    \<and> df_cell (data_frame frame) ''Display'' 2 = Some (PyStr ''Heart rate'')
    \<and> df_cell (data_frame frame) ''AppleHealthKitCode'' 2
        = Some (PyStr ''HKQuantityTypeIdentifierHeartRate'')
    \<and> df_cell (data_frame frame) ''QuantityName'' 2 = Some (PyStr ''Heart Rate'')"
proof -
  obtain frame where
    f: "ObservationFlattener_flatten example_infer_dtype example_to_date example_batch = Inr frame"
    using flatten_well_formed example_batch_well_formed by blast
  have "(0::nat) < length example_batch"
    "obs_code (example_batch ! 0) = Some \<lparr>concept_coding = Some []\<rparr>"
    "concept_coding \<lparr>concept_coding = Some []\<rparr> = Some []"
    by (simp_all add: example_batch_def example_observation_def)
  from coding_cells [OF f this]
  have a: "df_cell (data_frame frame) ''LoincCode'' 0 = Some (PyStr '''')"
    "df_cell (data_frame frame) ''QuantityName'' 0 = Some (PyStr '''')"
    by simp_all
  have "(1::nat) < length example_batch"
    "obs_code (example_batch ! 1) = Some \<lparr>concept_coding = Some [heart_rate]\<rparr>"
    "concept_coding \<lparr>concept_coding = Some [heart_rate]\<rparr> = Some [heart_rate]"
    by (simp_all add: example_batch_def example_observation_def)
  from coding_cells [OF f this]
  have b: "df_cell (data_frame frame) ''LoincCode'' 1 = Some (PyStr ''8867-4'')"
    "df_cell (data_frame frame) ''Display'' 1 = Some (PyStr ''Heart rate'')"
    "df_cell (data_frame frame) ''AppleHealthKitCode'' 1 = Some (PyStr ''8867-4'')"
    "df_cell (data_frame frame) ''QuantityName'' 1 = Some (PyStr ''Heart rate'')"
    by (simp_all add: heart_rate_def)
  have "(2::nat) < length example_batch"
    "obs_code (example_batch ! 2) = Some \<lparr>concept_coding = Some [heart_rate, healthkit_heart_rate]\<rparr>"
    "concept_coding \<lparr>concept_coding = Some [heart_rate, healthkit_heart_rate]\<rparr>
       = Some [heart_rate, healthkit_heart_rate]"
    by (simp_all add: example_batch_def example_observation_def)
  from coding_cells [OF f this]
  have c: "df_cell (data_frame frame) ''LoincCode'' 2 = Some (PyStr ''8867-4'')"
    "df_cell (data_frame frame) ''Display'' 2 = Some (PyStr ''Heart rate'')"
    "df_cell (data_frame frame) ''AppleHealthKitCode'' 2
        = Some (PyStr ''HKQuantityTypeIdentifierHeartRate'')"
    "df_cell (data_frame frame) ''QuantityName'' 2 = Some (PyStr ''Heart Rate'')"
    by (simp_all add: heart_rate_def healthkit_heart_rate_def)
  show ?thesis using f a b c by blast
qed

section \<open>The timestamp cell\<close>

lemma flatten_entry_timestamp_free:
  "(\<exists>row. flatten_entry (observation\<lparr>obs_effectiveDateTime := dt, obs_effectivePeriod := p\<rparr>)
          = Inr row)
   \<longleftrightarrow> (\<exists>row. flatten_entry observation = Inr row)"
proof
  assume "\<exists>row. flatten_entry (observation\<lparr>obs_effectiveDateTime := dt, obs_effectivePeriod := p\<rparr>)
            = Inr row"
  then obtain row where
    "flatten_entry (observation\<lparr>obs_effectiveDateTime := dt, obs_effectivePeriod := p\<rparr>)
       = Inr row" ..
  from flatten_entry_row [OF this] show "\<exists>row. flatten_entry observation = Inr row"
    by (auto simp: flatten_entry_def getitem_def bind_err_def subject_id_def)
next
  assume "\<exists>row. flatten_entry observation = Inr row"
  then obtain row where "flatten_entry observation = Inr row" ..
  from flatten_entry_row [OF this]
  show "\<exists>row. flatten_entry (observation\<lparr>obs_effectiveDateTime := dt, obs_effectivePeriod := p\<rparr>)
            = Inr row"
    by (auto simp: flatten_entry_def getitem_def bind_err_def subject_id_def)
qed

text \<open>
  C2. For every record of a batch that \<open>flatten\<close> flattens, with timestamps as the input
  contract has them: the EffectiveDateTime cell is read from \<open>effectiveDateTime\<close> when
  that field is present; otherwise from \<open>effectivePeriod.start\<close>; and when that is absent
  too the cell is the missing value \<open>NaT\<close>. The string that was read is parsed into a
  calendar date once all rows are assembled, and a string the parser does not read
  becomes \<open>NaT\<close> as well: every cell of the column is a date or \<open>NaT\<close>.
\<close>

theorem effective_date_cell:
  assumes "ObservationFlattener_flatten infer_dtype to_date resources = Inr frame"
    and "i < length resources"
    and "timestamps_in_contract (resources ! i)"
  shows "(\<forall>s. obs_effectiveDateTime (resources ! i) = Some s \<longrightarrow>
            df_cell (data_frame frame) ''EffectiveDateTime'' i =
              Some (case to_date (effective_column resources) s of
                      None \<Rightarrow> NaT | Some d \<Rightarrow> PyDate d))
       \<and> (obs_effectiveDateTime (resources ! i) = None \<longrightarrow>
            (\<forall>p s. obs_effectivePeriod (resources ! i) = Some p \<and> period_start p = Some s \<longrightarrow>
               df_cell (data_frame frame) ''EffectiveDateTime'' i =
                 Some (case to_date (effective_column resources) s of
                         None \<Rightarrow> NaT | Some d \<Rightarrow> PyDate d))
          \<and> (obs_effectivePeriod (resources ! i) = None \<longrightarrow>
               df_cell (data_frame frame) ''EffectiveDateTime'' i = Some NaT)
          \<and> (\<forall>p. obs_effectivePeriod (resources ! i) = Some p \<and> period_start p = None \<longrightarrow>
               df_cell (data_frame frame) ''EffectiveDateTime'' i = Some NaT))
       \<and> (df_cell (data_frame frame) ''EffectiveDateTime'' i = Some NaT
          \<or> (\<exists>d. df_cell (data_frame frame) ''EffectiveDateTime'' i = Some (PyDate d)))"
proof -
  have cell: "df_cell (data_frame frame) ''EffectiveDateTime'' i =
      Some (coerce_date to_date (effective_column resources)
             (cell_of_str (effective_datetime (resources ! i))))"
    using flatten_cell [OF assms(1,2)] by (auto simp: effective_column_def)
  have a: "\<forall>s. obs_effectiveDateTime (resources ! i) = Some s \<longrightarrow>
            df_cell (data_frame frame) ''EffectiveDateTime'' i =
              Some (case to_date (effective_column resources) s of
                      None \<Rightarrow> NaT | Some d \<Rightarrow> PyDate d)"
    using assms(3) unfolding cell
    by (auto simp: effective_datetime_def coerce_date_def timestamps_in_contract_def)
  have b: "obs_effectiveDateTime (resources ! i) = None \<longrightarrow>
            (\<forall>p s. obs_effectivePeriod (resources ! i) = Some p \<and> period_start p = Some s \<longrightarrow>
               df_cell (data_frame frame) ''EffectiveDateTime'' i =
                 Some (case to_date (effective_column resources) s of
                         None \<Rightarrow> NaT | Some d \<Rightarrow> PyDate d))
          \<and> (obs_effectivePeriod (resources ! i) = None \<longrightarrow>
               df_cell (data_frame frame) ''EffectiveDateTime'' i = Some NaT)
          \<and> (\<forall>p. obs_effectivePeriod (resources ! i) = Some p \<and> period_start p = None \<longrightarrow>
               df_cell (data_frame frame) ''EffectiveDateTime'' i = Some NaT)"
    using assms(3) unfolding cell
    by (auto simp: effective_datetime_def coerce_date_def timestamps_in_contract_def)
  have c: "df_cell (data_frame frame) ''EffectiveDateTime'' i = Some NaT
          \<or> (\<exists>d. df_cell (data_frame frame) ''EffectiveDateTime'' i = Some (PyDate d))"
    unfolding cell
    by (cases "effective_datetime (resources ! i)")
       (auto simp: coerce_date_def split: option.splits)
  show ?thesis using a b c by blast
qed

text \<open>The three records of the example batch take their timestamp from the field, from
  the period, and from neither.\<close>

theorem effective_date_cell_witness:
  "timestamps_in_contract (example_batch ! 0) \<and> timestamps_in_contract (example_batch ! 1)
   \<and> timestamps_in_contract (example_batch ! 2) \<and>
   (\<exists>frame.
      ObservationFlattener_flatten example_infer_dtype example_to_date example_batch = Inr frame
    \<and> df_cell (data_frame frame) ''EffectiveDateTime'' 0 = Some (PyDate (Date 2024 1 15))
    \<and> df_cell (data_frame frame) ''EffectiveDateTime'' 1 = Some (PyDate (Date 2024 1 15))
    \<and> df_cell (data_frame frame) ''EffectiveDateTime'' 2 = Some NaT)"
proof -
  obtain frame where
    f: "ObservationFlattener_flatten example_infer_dtype example_to_date example_batch = Inr frame"
    using flatten_well_formed example_batch_well_formed by blast
  have t: "timestamps_in_contract (example_batch ! 0)" "timestamps_in_contract (example_batch ! 1)"
    "timestamps_in_contract (example_batch ! 2)"
    by (simp_all add: timestamps_in_contract_def example_batch_def example_observation_def)
  have l: "(0::nat) < length example_batch" "(1::nat) < length example_batch"
    "(2::nat) < length example_batch"
    by (simp_all add: example_batch_def)
  have "df_cell (data_frame frame) ''EffectiveDateTime'' 0 = Some (PyDate (Date 2024 1 15))"
    using effective_date_cell [OF f l(1) t(1)]
    by (simp add: example_batch_def example_observation_def example_to_date_def)
  moreover have "df_cell (data_frame frame) ''EffectiveDateTime'' 1 = Some (PyDate (Date 2024 1 15))"
    using effective_date_cell [OF f l(2) t(2)]
    by (simp add: example_batch_def example_observation_def example_to_date_def)
  moreover have "df_cell (data_frame frame) ''EffectiveDateTime'' 2 = Some NaT"
    using effective_date_cell [OF f l(3) t(3)]
    by (simp add: example_batch_def example_observation_def)
  ultimately show ?thesis using t f by blast
qed

text \<open>
  Outside the input contract, a record whose \<open>effectiveDateTime\<close> is the empty string
  takes its cell from \<open>effectivePeriod.start\<close>: line 308 tests the truth value of the
  field, and the empty string is false.
\<close>

lemma empty_timestamp_falls_back:
  "obs_effectiveDateTime empty_timestamp_observation = Some ''''
   \<and> \<not> timestamps_in_contract empty_timestamp_observation
   \<and> (\<exists>frame.
        ObservationFlattener_flatten example_infer_dtype example_to_date
          [empty_timestamp_observation] = Inr frame
      \<and> df_cell (data_frame frame) ''EffectiveDateTime'' 0 = Some (PyDate (Date 2024 1 15)))"
proof -
  have wf: "list_all well_formed [empty_timestamp_observation]"
    by (simp add: empty_timestamp_observation_def example_observation_def well_formed_def
        heart_rate_def)
  obtain frame where
    f: "ObservationFlattener_flatten example_infer_dtype example_to_date
          [empty_timestamp_observation] = Inr frame"
    using flatten_well_formed [OF _ wf] by blast
  have "df_cell (data_frame frame) ''EffectiveDateTime'' 0 = Some (PyDate (Date 2024 1 15))"
    using flatten_cell [OF f, of 0]
    by (auto simp: empty_timestamp_observation_def example_observation_def
        effective_datetime_def coerce_date_def example_to_date_def)
  moreover have "obs_effectiveDateTime empty_timestamp_observation = Some ''''"
    by (simp add: empty_timestamp_observation_def example_observation_def)
  moreover have "\<not> timestamps_in_contract empty_timestamp_observation"
    by (simp add: timestamps_in_contract_def empty_timestamp_observation_def
        example_observation_def)
  ultimately show ?thesis using f by blast
qed

section \<open>Records without a required field\<close>

lemma flatten_entry_is_lookup_error:
  "flatten_entry r = Inl e \<Longrightarrow> is_lookup_error e"
  unfolding flatten_entry_def bind_err_Inl_iff
  by (auto simp: getitem_def subject_id_def loinc_code_of_def display_of_def
      apple_healthkit_code_of_def quantity_name_of_def split: option.splits if_splits)

lemma lacking_record_fails:
  assumes "lacks_coding_list r \<or> lacks_subject r \<or> lacks_value_quantity r"
  shows "\<exists>e. flatten_entry r = Inl e"
  using assms
  by (cases "flatten_entry r")
     (auto dest!: flatten_entry_row
           simp: lacks_coding_list_def lacks_subject_def lacks_value_quantity_def subject_id_def
           split: option.splits)

lemma flatten_entries_first_error:
  assumes "i < length rs" and "flatten_entry (rs ! i) = Inl e0"
  shows "\<exists>e j. flatten_entries rs = Inl e \<and> j \<le> i \<and> flatten_entry (rs ! j) = Inl e
     \<and> (\<forall>k < j. \<exists>row. flatten_entry (rs ! k) = Inr row)"
  using assms
proof (induction rs arbitrary: i)
  case Nil
  then show ?case by simp
next
  case (Cons a rs)
  show ?case
  proof (cases "flatten_entry a")
    case (Inl e)
    then have "flatten_entries (a # rs) = Inl e \<and> 0 \<le> i
      \<and> flatten_entry ((a # rs) ! 0) = Inl e
      \<and> (\<forall>k < 0. \<exists>row. flatten_entry ((a # rs) ! k) = Inr row)"
      by (simp add: bind_err_def)
    then show ?thesis by blast
  next
    case (Inr row)
    then obtain i' where i': "i = Suc i'"
      using Cons.prems(2) by (cases i) auto
    then have "i' < length rs" "flatten_entry (rs ! i') = Inl e0"
      using Cons.prems by auto
    then obtain e j where ej: "flatten_entries rs = Inl e" "j \<le> i'"
      "flatten_entry (rs ! j) = Inl e" "\<forall>k < j. \<exists>row. flatten_entry (rs ! k) = Inr row"
      using Cons.IH by blast
    have "\<forall>k < Suc j. \<exists>row. flatten_entry ((a # rs) ! k) = Inr row"
      using ej(4) Inr by (auto simp: nth_Cons split: nat.splits)
    then have "flatten_entries (a # rs) = Inl e \<and> Suc j \<le> i
      \<and> flatten_entry ((a # rs) ! Suc j) = Inl e
      \<and> (\<forall>k < Suc j. \<exists>row. flatten_entry ((a # rs) ! k) = Inr row)"
      using ej Inr i' by (simp add: bind_err_def)
    then show ?thesis by blast
  qed
qed

text \<open>The exception of one record, field by field, in the order in which lines 312 to
  335 read the fields.\<close>

lemma flatten_entry_no_code:
  "obs_code r = None \<Longrightarrow> flatten_entry r = Inl (KeyError ''code'')"
  by (simp add: flatten_entry_def getitem_def bind_err_def)

lemma flatten_entry_no_coding:
  "obs_code r = Some code \<Longrightarrow> concept_coding code = None \<Longrightarrow>
   flatten_entry r = Inl (KeyError ''coding'')"
  by (simp add: flatten_entry_def getitem_def bind_err_def)

lemma coding_readable_reads:
  assumes "coding_readable coding"
  shows "\<exists>lc d ahk qn. loinc_code_of coding = Inr lc \<and> display_of coding = Inr d
     \<and> apple_healthkit_code_of coding = Inr ahk \<and> quantity_name_of coding = Inr qn"
proof -
  have e: "coding_code (coding ! k) \<noteq> None \<and> coding_display (coding ! k) \<noteq> None"
    if "k < 2" "k < length coding" for k
    using assms that by (simp add: coding_readable_def list_all_length)
  show ?thesis
    using e [of 0] e [of 1]
    by (auto simp: loinc_code_of_def display_of_def apple_healthkit_code_of_def
        quantity_name_of_def getitem_def)
qed

lemma flatten_entry_no_subject:
  assumes "obs_code r = Some code" and "concept_coding code = Some coding"
    and "coding_readable coding" and "obs_subject r = None"
  shows "flatten_entry r =
     Inl (AttributeError (quoted ''NoneType'' @ '' object has no attribute '' @ quoted ''id''))"
  using coding_readable_reads [OF assms(3)] assms(1,2,4)
  by (auto simp: flatten_entry_def getitem_def bind_err_def subject_id_def)

lemma flatten_entry_no_quantity:
  assumes "obs_code r = Some code" and "concept_coding code = Some coding"
    and "coding_readable coding" and "obs_subject r = Some subject"
    and "obs_valueQuantity r = None"
  shows "flatten_entry r = Inl (KeyError ''valueQuantity'')"
  using coding_readable_reads [OF assms(3)] assms(1,2,4,5)
  by (auto simp: flatten_entry_def getitem_def bind_err_def subject_id_def)

text \<open>A subject without an \<open>id\<close>: \<open>observation.subject.id\<close> is \<open>None\<close>, and the row is
  built.\<close>

lemma flatten_entries_all_rows:
  "\<forall>r \<in> set rs. \<exists>row. flatten_entry r = Inr row \<Longrightarrow> \<exists>rows. flatten_entries rs = Inr rows"
proof (induction rs)
  case Nil
  show ?case by simp
next
  case (Cons r rs)
  then obtain row rows where "flatten_entry r = Inr row" "flatten_entries rs = Inr rows"
    by auto
  then show ?case by (simp add: bind_err_def)
qed

lemma without_subject_id_row:
  assumes "well_formed r"
  shows "\<exists>row. flatten_entry (without_subject_id r) = Inr row"
proof -
  obtain row where "flatten_entry r = Inr row"
    using well_formed_flatten_entry [OF assms] by blast
  from flatten_entry_row [OF this] show ?thesis
    by (auto simp: flatten_entry_def getitem_def bind_err_def subject_id_def
        without_subject_id_def)
qed

lemma without_subject_id_user_id:
  assumes "flatten_entry (without_subject_id r) = Inr row"
  shows "map_of row ''UserId'' = Some PyNone"
  using flatten_entry_row [OF assms]
  by (auto simp: subject_id_def without_subject_id_def)

lemma flatten_without_subject_id:
  assumes "resources \<noteq> []" and "list_all well_formed resources" and "i < length resources"
  shows "\<exists>frame.
      ObservationFlattener_flatten infer_dtype to_date
        (resources[i := without_subject_id (resources ! i)]) = Inr frame
    \<and> lacks_subject_id (resources[i := without_subject_id (resources ! i)] ! i)
    \<and> df_cell (data_frame frame) ''UserId'' i = Some PyNone"
proof -
  let ?rs = "resources[i := without_subject_id (resources ! i)]"
  have "\<exists>row. flatten_entry r = Inr row" if "r \<in> set ?rs" for r
  proof -
    have "r = without_subject_id (resources ! i) \<or> r \<in> set resources"
      using that set_update_subset_insert [of resources i] by auto
    moreover have "well_formed (resources ! i)"
      using assms(2,3) by (simp add: list_all_length)
    moreover have "well_formed r" if "r \<in> set resources"
      using assms(2) that by (simp add: list_all_iff)
    ultimately show ?thesis
      using without_subject_id_row well_formed_flatten_entry by blast
  qed
  then obtain rows where rows: "flatten_entries ?rs = Inr rows"
    using flatten_entries_all_rows [of ?rs] by blast
  have ne: "?rs \<noteq> []" using assms(1) by simp
  let ?frame = "\<lparr>data_frame = flattened_table infer_dtype to_date rows,
                 resource_type = OBSERVATION, frame_resource_columns = resource_columns\<rparr>"
  have ok: "ObservationFlattener_flatten infer_dtype to_date ?rs = Inr ?frame"
    using rows ne by (rule flatten_Inr)
  have i: "i < length ?rs" using assms(3) by simp
  obtain row where row: "flatten_entry (?rs ! i) = Inr row"
    and cells: "\<forall>key \<in> set observation_headers. key \<noteq> ''EffectiveDateTime'' \<longrightarrow>
        df_cell (data_frame ?frame) key i = map_of row key"
    using flatten_cell [OF ok i] by blast
  have "?rs ! i = without_subject_id (resources ! i)"
    using assms(3) by simp
  then have "map_of row ''UserId'' = Some PyNone"
    using row without_subject_id_user_id by simp
  moreover have "df_cell (data_frame ?frame) ''UserId'' i = map_of row ''UserId''"
    using cells by (simp add: observation_headers_def)
  ultimately have c: "df_cell (data_frame ?frame) ''UserId'' i = Some PyNone" by simp
  have l: "lacks_subject_id (?rs ! i)"
    using assms(3) by (simp add: lacks_subject_id_def without_subject_id_def)
  from ok l c have "ObservationFlattener_flatten infer_dtype to_date ?rs = Inr ?frame
    \<and> lacks_subject_id (?rs ! i)
    \<and> df_cell (data_frame ?frame) ''UserId'' i = Some PyNone"
    by (intro conjI)
  then show ?thesis by (intro exI)
qed

lemma first_failure_of_batch:
  assumes a: "i < length resources
      \<and> (lacks_coding_list (resources ! i) \<or> lacks_subject (resources ! i)
         \<or> lacks_value_quantity (resources ! i))"
  shows "\<exists>e j.
        ObservationFlattener_flatten infer_dtype to_date resources = Inl e
      \<and> is_lookup_error e
      \<and> j \<le> i
      \<and> flatten_entry (resources ! j) = Inl e
      \<and> (\<forall>k < j. \<exists>row. flatten_entry (resources ! k) = Inr row)
      \<and> (j = i \<longrightarrow>
            (obs_code (resources ! i) = None \<longrightarrow> e = KeyError ''code'')
          \<and> (\<forall>code. obs_code (resources ! i) = Some code \<and> concept_coding code = None \<longrightarrow>
                e = KeyError ''coding'')
          \<and> (\<forall>code coding.
                obs_code (resources ! i) = Some code \<and> concept_coding code = Some coding
                \<and> coding_readable coding \<longrightarrow>
                (obs_subject (resources ! i) = None \<longrightarrow>
                   e = AttributeError
                         (quoted ''NoneType'' @ '' object has no attribute '' @ quoted ''id''))
              \<and> (obs_subject (resources ! i) \<noteq> None \<longrightarrow> e = KeyError ''valueQuantity'')))"
proof -
  let ?r = "resources ! i"
  let ?named = "\<lambda>e.
            (obs_code ?r = None \<longrightarrow> e = KeyError ''code'')
          \<and> (\<forall>code. obs_code ?r = Some code \<and> concept_coding code = None \<longrightarrow>
                e = KeyError ''coding'')
          \<and> (\<forall>code coding.
                obs_code ?r = Some code \<and> concept_coding code = Some coding
                \<and> coding_readable coding \<longrightarrow>
                (obs_subject ?r = None \<longrightarrow>
                   e = AttributeError
                         (quoted ''NoneType'' @ '' object has no attribute '' @ quoted ''id''))
              \<and> (obs_subject ?r \<noteq> None \<longrightarrow> e = KeyError ''valueQuantity''))"
  have lacks: "lacks_coding_list ?r \<or> lacks_subject ?r \<or> lacks_value_quantity ?r"
    using a by (rule conjunct2)
  have i: "i < length resources" using a by (rule conjunct1)
  obtain e0 where e0: "flatten_entry ?r = Inl e0"
    using lacking_record_fails [OF lacks] ..
  obtain e j where ej: "flatten_entries resources = Inl e" "j \<le> i"
    "flatten_entry (resources ! j) = Inl e"
    "\<forall>k < j. \<exists>row. flatten_entry (resources ! k) = Inr row"
    using flatten_entries_first_error [OF i e0] by blast
  have f: "ObservationFlattener_flatten infer_dtype to_date resources = Inl e"
    by (simp add: ObservationFlattener_flatten_def ej(1) bind_err_def)
  have l: "is_lookup_error e"
    using ej(3) by (rule flatten_entry_is_lookup_error)
  have n: "j = i \<longrightarrow> ?named e"
  proof
    assume "j = i"
    then have e: "flatten_entry ?r = Inl e" using ej(3) by simp
    have 1: "obs_code ?r = None \<longrightarrow> e = KeyError ''code''"
    proof
      assume "obs_code ?r = None"
      from flatten_entry_no_code [OF this] e show "e = KeyError ''code''" by simp
    qed
    have 2: "\<forall>code. obs_code ?r = Some code \<and> concept_coding code = None \<longrightarrow>
                e = KeyError ''coding''"
    proof (intro allI impI, elim conjE)
      fix code assume "obs_code ?r = Some code" "concept_coding code = None"
      from flatten_entry_no_coding [OF this] e show "e = KeyError ''coding''" by simp
    qed
    have 3: "\<forall>code coding.
                obs_code ?r = Some code \<and> concept_coding code = Some coding
                \<and> coding_readable coding \<longrightarrow>
                (obs_subject ?r = None \<longrightarrow>
                   e = AttributeError
                         (quoted ''NoneType'' @ '' object has no attribute '' @ quoted ''id''))
              \<and> (obs_subject ?r \<noteq> None \<longrightarrow> e = KeyError ''valueQuantity'')"
    proof (intro allI impI conjI; elim conjE)
      fix code coding
      assume c: "obs_code ?r = Some code" "concept_coding code = Some coding"
        "coding_readable coding"
      {
        assume "obs_subject ?r = None"
        from flatten_entry_no_subject [OF c this] e
        show "e = AttributeError
                    (quoted ''NoneType'' @ '' object has no attribute '' @ quoted ''id'')"
          by simp
      }
      {
        assume "obs_subject ?r \<noteq> None"
        then obtain subject where s: "obs_subject ?r = Some subject" by auto
        have "obs_valueQuantity ?r = None"
          using lacks c(1,2) s
          by (simp add: lacks_coding_list_def lacks_subject_def lacks_value_quantity_def)
        from flatten_entry_no_quantity [OF c s this] e
        show "e = KeyError ''valueQuantity''" by simp
      }
    qed
    from 1 2 3 show "?named e" by (intro conjI)
  qed
  from f l ej(2,3,4) n
  have "ObservationFlattener_flatten infer_dtype to_date resources = Inl e
      \<and> is_lookup_error e
      \<and> j \<le> i
      \<and> flatten_entry (resources ! j) = Inl e
      \<and> (\<forall>k < j. \<exists>row. flatten_entry (resources ! k) = Inr row)
      \<and> (j = i \<longrightarrow> ?named e)"
    by (intro conjI)
  then show ?thesis by (intro exI)
qed

text \<open>
  C3, as the code has it. When record \<open>i\<close> of a batch has no coding list, no subject or
  no value quantity, \<open>flatten\<close> returns no frame: it raises the exception of the first
  record whose row cannot be built, a \<open>KeyError\<close> or an \<open>AttributeError\<close> that carries no
  position. When that record is record \<open>i\<close>, the exception is \<open>KeyError\<close> of \<open>code\<close> for
  a record without \<open>code\<close>, \<open>KeyError\<close> of \<open>coding\<close> for a \<open>code\<close> without \<open>coding\<close>, and,
  the coding entries being readable, \<open>AttributeError\<close> for a record without subject and
  \<open>KeyError\<close> of \<open>valueQuantity\<close> for a record with a subject and without value
  quantity. A subject without an \<open>id\<close> is no failure: a batch of well-formed records of
  which record \<open>i\<close> has lost the \<open>id\<close> of its subject is flattened, and the UserId cell
  of row \<open>i\<close> is \<open>None\<close>.
\<close>

theorem flatten_fails_on_missing_field:
  "(i < length resources
      \<and> (lacks_coding_list (resources ! i) \<or> lacks_subject (resources ! i)
         \<or> lacks_value_quantity (resources ! i)) \<longrightarrow>
     (\<exists>e j.
        ObservationFlattener_flatten infer_dtype to_date resources = Inl e
      \<and> is_lookup_error e
      \<and> j \<le> i
      \<and> flatten_entry (resources ! j) = Inl e
      \<and> (\<forall>k < j. \<exists>row. flatten_entry (resources ! k) = Inr row)
      \<and> (j = i \<longrightarrow>
            (obs_code (resources ! i) = None \<longrightarrow> e = KeyError ''code'')
          \<and> (\<forall>code. obs_code (resources ! i) = Some code \<and> concept_coding code = None \<longrightarrow>
                e = KeyError ''coding'')
          \<and> (\<forall>code coding.
                obs_code (resources ! i) = Some code \<and> concept_coding code = Some coding
                \<and> coding_readable coding \<longrightarrow>
                (obs_subject (resources ! i) = None \<longrightarrow>
                   e = AttributeError
                         (quoted ''NoneType'' @ '' object has no attribute '' @ quoted ''id''))
              \<and> (obs_subject (resources ! i) \<noteq> None \<longrightarrow> e = KeyError ''valueQuantity'')))))
   \<and> (resources \<noteq> [] \<and> list_all well_formed resources \<and> i < length resources \<longrightarrow>
        (\<exists>frame.
           ObservationFlattener_flatten infer_dtype to_date
             (resources[i := without_subject_id (resources ! i)]) = Inr frame
         \<and> lacks_subject_id (resources[i := without_subject_id (resources ! i)] ! i)
         \<and> df_cell (data_frame frame) ''UserId'' i = Some PyNone))"
proof (intro conjI impI)
  assume "i < length resources
      \<and> (lacks_coding_list (resources ! i) \<or> lacks_subject (resources ! i)
         \<or> lacks_value_quantity (resources ! i))"
  then show "\<exists>e j.
        ObservationFlattener_flatten infer_dtype to_date resources = Inl e
      \<and> is_lookup_error e
      \<and> j \<le> i
      \<and> flatten_entry (resources ! j) = Inl e
      \<and> (\<forall>k < j. \<exists>row. flatten_entry (resources ! k) = Inr row)
      \<and> (j = i \<longrightarrow>
            (obs_code (resources ! i) = None \<longrightarrow> e = KeyError ''code'')
          \<and> (\<forall>code. obs_code (resources ! i) = Some code \<and> concept_coding code = None \<longrightarrow>
                e = KeyError ''coding'')
          \<and> (\<forall>code coding.
                obs_code (resources ! i) = Some code \<and> concept_coding code = Some coding
                \<and> coding_readable coding \<longrightarrow>
                (obs_subject (resources ! i) = None \<longrightarrow>
                   e = AttributeError
                         (quoted ''NoneType'' @ '' object has no attribute '' @ quoted ''id''))
              \<and> (obs_subject (resources ! i) \<noteq> None \<longrightarrow> e = KeyError ''valueQuantity'')))"
    by (rule first_failure_of_batch)
next
  assume "resources \<noteq> [] \<and> list_all well_formed resources \<and> i < length resources"
  then have "resources \<noteq> []" "list_all well_formed resources" "i < length resources"
    by simp_all
  then show "\<exists>frame.
           ObservationFlattener_flatten infer_dtype to_date
             (resources[i := without_subject_id (resources ! i)]) = Inr frame
         \<and> lacks_subject_id (resources[i := without_subject_id (resources ! i)] ! i)
         \<and> df_cell (data_frame frame) ''UserId'' i = Some PyNone"
    by (rule flatten_without_subject_id)
qed

text \<open>A batch of two records whose second record has no value quantity, one whose
  second record has no subject, and the example batch with the \<open>id\<close> of the subject of
  its first record removed.\<close>

theorem flatten_fails_on_missing_field_witness:
  "lacks_value_quantity ([example_observation None None [], no_quantity_observation] ! 1)
   \<and> ObservationFlattener_flatten example_infer_dtype example_to_date
        [example_observation None None [], no_quantity_observation]
      = Inl (KeyError ''valueQuantity'')
   \<and> lacks_subject
        ([example_observation None None [],
          (example_observation None None [heart_rate])\<lparr>obs_subject := None\<rparr>] ! 1)
   \<and> ObservationFlattener_flatten example_infer_dtype example_to_date
        [example_observation None None [],
         (example_observation None None [heart_rate])\<lparr>obs_subject := None\<rparr>]
      = Inl (AttributeError (quoted ''NoneType'' @ '' object has no attribute '' @ quoted ''id''))
   \<and> example_batch \<noteq> [] \<and> list_all well_formed example_batch
   \<and> (\<exists>frame.
        ObservationFlattener_flatten example_infer_dtype example_to_date
          (example_batch[0 := without_subject_id (example_batch ! 0)]) = Inr frame
      \<and> df_cell (data_frame frame) ''UserId'' 0 = Some PyNone)"
proof -
  let ?good = "example_observation None None []"
  let ?rs = "[?good, no_quantity_observation]"
  let ?ns = "[?good, (example_observation None None [heart_rate])\<lparr>obs_subject := None\<rparr>]"
  have good: "\<exists>row. flatten_entry ?good = Inr row"
    by (simp add: flatten_entry_def example_observation_def
        bind_err_def getitem_def loinc_code_of_def display_of_def apple_healthkit_code_of_def
        quantity_name_of_def subject_id_def)
  have readable: "coding_readable [heart_rate]"
    by (simp add: coding_readable_def heart_rate_def)
  have a: "lacks_value_quantity (?rs ! 1)"
    by (simp add: lacks_value_quantity_def no_quantity_observation_def)
  have a': "obs_code (?rs ! 1) = Some \<lparr>concept_coding = Some [heart_rate]\<rparr>"
    "concept_coding \<lparr>concept_coding = Some [heart_rate]\<rparr> = Some [heart_rate]"
    "obs_subject (?rs ! 1) \<noteq> None"
    by (simp_all add: no_quantity_observation_def example_observation_def)
  have h: "1 < length ?rs
      \<and> (lacks_coding_list (?rs ! 1) \<or> lacks_subject (?rs ! 1) \<or> lacks_value_quantity (?rs ! 1))"
    using a by simp
  from flatten_fails_on_missing_field [of 1 ?rs example_infer_dtype example_to_date, THEN conjunct1,
      THEN mp, OF h]
  obtain e where "\<exists>j. ObservationFlattener_flatten example_infer_dtype example_to_date ?rs = Inl e
      \<and> is_lookup_error e \<and> j \<le> 1 \<and> flatten_entry (?rs ! j) = Inl e
      \<and> (\<forall>k < j. \<exists>row. flatten_entry (?rs ! k) = Inr row)
      \<and> (j = 1 \<longrightarrow>
            (obs_code (?rs ! 1) = None \<longrightarrow> e = KeyError ''code'')
          \<and> (\<forall>code. obs_code (?rs ! 1) = Some code \<and> concept_coding code = None \<longrightarrow>
                e = KeyError ''coding'')
          \<and> (\<forall>code coding.
                obs_code (?rs ! 1) = Some code \<and> concept_coding code = Some coding
                \<and> coding_readable coding \<longrightarrow>
                (obs_subject (?rs ! 1) = None \<longrightarrow>
                   e = AttributeError
                         (quoted ''NoneType'' @ '' object has no attribute '' @ quoted ''id''))
              \<and> (obs_subject (?rs ! 1) \<noteq> None \<longrightarrow> e = KeyError ''valueQuantity'')))" ..
  then obtain j where ej: "ObservationFlattener_flatten example_infer_dtype example_to_date ?rs = Inl e
      \<and> is_lookup_error e \<and> j \<le> 1 \<and> flatten_entry (?rs ! j) = Inl e
      \<and> (\<forall>k < j. \<exists>row. flatten_entry (?rs ! k) = Inr row)
      \<and> (j = 1 \<longrightarrow>
            (obs_code (?rs ! 1) = None \<longrightarrow> e = KeyError ''code'')
          \<and> (\<forall>code. obs_code (?rs ! 1) = Some code \<and> concept_coding code = None \<longrightarrow>
                e = KeyError ''coding'')
          \<and> (\<forall>code coding.
                obs_code (?rs ! 1) = Some code \<and> concept_coding code = Some coding
                \<and> coding_readable coding \<longrightarrow>
                (obs_subject (?rs ! 1) = None \<longrightarrow>
                   e = AttributeError
                         (quoted ''NoneType'' @ '' object has no attribute '' @ quoted ''id''))
              \<and> (obs_subject (?rs ! 1) \<noteq> None \<longrightarrow> e = KeyError ''valueQuantity'')))" ..
  note e1 = ej [THEN conjunct1]
    and e2 = ej [THEN conjunct2, THEN conjunct2, THEN conjunct1]
    and e3 = ej [THEN conjunct2, THEN conjunct2, THEN conjunct2, THEN conjunct1]
    and e4 = ej [THEN conjunct2, THEN conjunct2, THEN conjunct2, THEN conjunct2, THEN conjunct2]
  have "j = 1" using e2 e3 good by (cases j) auto
  note named = e4 [THEN mp, OF \<open>j = 1\<close>, THEN conjunct2, THEN conjunct2]
  from named have "e = KeyError ''valueQuantity''"
    using a' readable by blast
  then have 1: "ObservationFlattener_flatten example_infer_dtype example_to_date ?rs
      = Inl (KeyError ''valueQuantity'')"
    using e1 by simp
  have b: "lacks_subject (?ns ! 1)"
    by (simp add: lacks_subject_def)
  have b': "obs_code (?ns ! 1) = Some \<lparr>concept_coding = Some [heart_rate]\<rparr>"
    "concept_coding \<lparr>concept_coding = Some [heart_rate]\<rparr> = Some [heart_rate]"
    "obs_subject (?ns ! 1) = None"
    by (simp_all add: example_observation_def)
  have h': "1 < length ?ns
      \<and> (lacks_coding_list (?ns ! 1) \<or> lacks_subject (?ns ! 1) \<or> lacks_value_quantity (?ns ! 1))"
    using b by simp
  from flatten_fails_on_missing_field [of 1 ?ns example_infer_dtype example_to_date, THEN conjunct1,
      THEN mp, OF h']
  obtain e' where "\<exists>j. ObservationFlattener_flatten example_infer_dtype example_to_date ?ns = Inl e'
      \<and> is_lookup_error e' \<and> j \<le> 1 \<and> flatten_entry (?ns ! j) = Inl e'
      \<and> (\<forall>k < j. \<exists>row. flatten_entry (?ns ! k) = Inr row)
      \<and> (j = 1 \<longrightarrow>
            (obs_code (?ns ! 1) = None \<longrightarrow> e' = KeyError ''code'')
          \<and> (\<forall>code. obs_code (?ns ! 1) = Some code \<and> concept_coding code = None \<longrightarrow>
                e' = KeyError ''coding'')
          \<and> (\<forall>code coding.
                obs_code (?ns ! 1) = Some code \<and> concept_coding code = Some coding
                \<and> coding_readable coding \<longrightarrow>
                (obs_subject (?ns ! 1) = None \<longrightarrow>
                   e' = AttributeError
                         (quoted ''NoneType'' @ '' object has no attribute '' @ quoted ''id''))
              \<and> (obs_subject (?ns ! 1) \<noteq> None \<longrightarrow> e' = KeyError ''valueQuantity'')))" ..
  then obtain j' where ej': "ObservationFlattener_flatten example_infer_dtype example_to_date ?ns = Inl e'
      \<and> is_lookup_error e' \<and> j' \<le> 1 \<and> flatten_entry (?ns ! j') = Inl e'
      \<and> (\<forall>k < j'. \<exists>row. flatten_entry (?ns ! k) = Inr row)
      \<and> (j' = 1 \<longrightarrow>
            (obs_code (?ns ! 1) = None \<longrightarrow> e' = KeyError ''code'')
          \<and> (\<forall>code. obs_code (?ns ! 1) = Some code \<and> concept_coding code = None \<longrightarrow>
                e' = KeyError ''coding'')
          \<and> (\<forall>code coding.
                obs_code (?ns ! 1) = Some code \<and> concept_coding code = Some coding
                \<and> coding_readable coding \<longrightarrow>
                (obs_subject (?ns ! 1) = None \<longrightarrow>
                   e' = AttributeError
                         (quoted ''NoneType'' @ '' object has no attribute '' @ quoted ''id''))
              \<and> (obs_subject (?ns ! 1) \<noteq> None \<longrightarrow> e' = KeyError ''valueQuantity'')))" ..
  note f1 = ej' [THEN conjunct1]
    and f2 = ej' [THEN conjunct2, THEN conjunct2, THEN conjunct1]
    and f3 = ej' [THEN conjunct2, THEN conjunct2, THEN conjunct2, THEN conjunct1]
    and f4 = ej' [THEN conjunct2, THEN conjunct2, THEN conjunct2, THEN conjunct2, THEN conjunct2]
  have "j' = 1" using f2 f3 good by (cases j') auto
  note named' = f4 [THEN mp, OF \<open>j' = 1\<close>, THEN conjunct2, THEN conjunct2]
  from named' have "e' = AttributeError
                    (quoted ''NoneType'' @ '' object has no attribute '' @ quoted ''id'')"
    using b' readable by blast
  then have 2: "ObservationFlattener_flatten example_infer_dtype example_to_date ?ns
      = Inl (AttributeError (quoted ''NoneType'' @ '' object has no attribute '' @ quoted ''id''))"
    using f1 by simp
  have c: "example_batch \<noteq> []" "list_all well_formed example_batch"
    using example_batch_well_formed by simp_all
  have h'': "example_batch \<noteq> [] \<and> list_all well_formed example_batch
      \<and> 0 < length example_batch"
    using c by simp
  from flatten_fails_on_missing_field [of 0 example_batch example_infer_dtype example_to_date,
      THEN conjunct2, THEN mp, OF h'']
  obtain frame where fr: "ObservationFlattener_flatten example_infer_dtype example_to_date
          (example_batch[0 := without_subject_id (example_batch ! 0)]) = Inr frame
      \<and> lacks_subject_id (example_batch[0 := without_subject_id (example_batch ! 0)] ! 0)
      \<and> df_cell (data_frame frame) ''UserId'' 0 = Some PyNone" ..
  then have "ObservationFlattener_flatten example_infer_dtype example_to_date
          (example_batch[0 := without_subject_id (example_batch ! 0)]) = Inr frame
      \<and> df_cell (data_frame frame) ''UserId'' 0 = Some PyNone"
    by (elim conjE, intro conjI)
  then have 3: "\<exists>frame.
        ObservationFlattener_flatten example_infer_dtype example_to_date
          (example_batch[0 := without_subject_id (example_batch ! 0)]) = Inr frame
      \<and> df_cell (data_frame frame) ''UserId'' 0 = Some PyNone"
    by (intro exI)
  from a 1 b 2 c 3 show ?thesis by (intro conjI)
qed

text \<open>
  A record whose subject has no \<open>id\<close> is flattened, with \<open>None\<close> for its UserId cell.
  And the record without a value quantity raises the same exception, \<open>KeyError\<close> of
  \<open>valueQuantity\<close>, at position 0 of one batch and at position 1 of another: the
  exception does not tell where the record stands.
\<close>

theorem missing_id_passes_and_error_has_no_position:
  "lacks_subject_id no_id_observation
   \<and> (\<exists>frame.
        ObservationFlattener_flatten example_infer_dtype example_to_date [no_id_observation]
          = Inr frame
      \<and> df_cell (data_frame frame) ''UserId'' 0 = Some PyNone)
   \<and> ObservationFlattener_flatten example_infer_dtype example_to_date [no_quantity_observation]
     = Inl (KeyError ''valueQuantity'')
   \<and> ObservationFlattener_flatten example_infer_dtype example_to_date
        [example_observation None None [], no_quantity_observation]
     = Inl (KeyError ''valueQuantity'')"
proof -
  let ?r = "example_observation (Some ''2024-01-15'') None [heart_rate]"
  have wf: "[?r] \<noteq> []" "list_all well_formed [?r]" "0 < length [?r]"
    by (simp_all add: example_observation_def well_formed_def heart_rate_def)
  have "[?r][0 := without_subject_id ([?r] ! 0)] = [no_id_observation]"
    by (simp add: no_id_observation_def)
  then have 1: "\<exists>frame.
        ObservationFlattener_flatten example_infer_dtype example_to_date [no_id_observation]
          = Inr frame
      \<and> df_cell (data_frame frame) ''UserId'' 0 = Some PyNone"
    using flatten_without_subject_id [OF wf, of example_infer_dtype example_to_date] by auto
  have 0: "lacks_subject_id no_id_observation"
    by (simp add: lacks_subject_id_def no_id_observation_def without_subject_id_def)
  have c: "flatten_entry no_quantity_observation = Inl (KeyError ''valueQuantity'')"
    by (simp add: flatten_entry_def no_quantity_observation_def example_observation_def
        bind_err_def getitem_def loinc_code_of_def display_of_def apple_healthkit_code_of_def
        quantity_name_of_def subject_id_def heart_rate_def)
  have d: "\<exists>row. flatten_entry (example_observation None None []) = Inr row"
    by (simp add: flatten_entry_def example_observation_def
        bind_err_def getitem_def loinc_code_of_def display_of_def apple_healthkit_code_of_def
        quantity_name_of_def subject_id_def)
  have 2: "ObservationFlattener_flatten example_infer_dtype example_to_date [no_quantity_observation]
     = Inl (KeyError ''valueQuantity'')
   \<and> ObservationFlattener_flatten example_infer_dtype example_to_date
        [example_observation None None [], no_quantity_observation]
     = Inl (KeyError ''valueQuantity'')"
    using c d by (auto simp: ObservationFlattener_flatten_def bind_err_def)
  show ?thesis using 0 1 2 by blast
qed

section \<open>Validation of the columns\<close>

lemma distinct_required_columns:
  assumes "frame_resource_columns self = resource_columns"
  shows "distinct (required_columns self)"
  using assms
  by (cases "resource_type self") (simp_all add: required_columns_def resource_columns_def)

lemma set_missing_columns: "set (missing_columns self) = absent_columns self"
  by (auto simp: missing_columns_def absent_columns_def)

lemma missing_columns_singleton:
  assumes "distinct (required_columns self)" and "absent_columns self = {col}"
  shows "missing_columns self = [col]"
proof -
  have d: "distinct (missing_columns self)"
    using assms(1) by (simp add: missing_columns_def)
  have s: "set (missing_columns self) = {col}"
    using assms(2) by (simp add: set_missing_columns)
  obtain x xs where xs: "missing_columns self = x # xs"
    using s by (cases "missing_columns self") auto
  then have "x = col" using s by auto
  moreover have "xs = []"
  proof (cases xs)
    case (Cons y ys)
    then have "y = col" "y \<noteq> x" using s d xs by auto
    then show ?thesis using \<open>x = col\<close> by simp
  qed simp
  ultimately show ?thesis using xs by simp
qed

text \<open>
  C6. When the table of a frame lacks one or more of the required columns of its kind,
  \<open>validate_columns\<close> raises the \<open>ValueError\<close> whose message lists the absent
  columns: all of them, each once, in the order of the schema, separated by commas. When
  QuantityValue is the only absent column the message names QuantityValue and nothing
  else.
\<close>

theorem validate_columns_missing:
  assumes "frame_resource_columns self = resource_columns"
    and "absent_columns self \<noteq> {}"
  shows "validate_columns order self =
           Inl (ValueError (''The DataFrame is missing required columns: ''
                            @ join '', '' (missing_columns self)))
       \<and> set (missing_columns self) = absent_columns self
       \<and> distinct (missing_columns self)
       \<and> (absent_columns self = {''QuantityValue''} \<longrightarrow>
            validate_columns order self =
              Inl (ValueError ''The DataFrame is missing required columns: QuantityValue''))"
proof -
  have ne: "missing_columns self \<noteq> []"
    using assms(2) set_missing_columns [of self] by auto
  have v: "validate_columns order self =
           Inl (ValueError (''The DataFrame is missing required columns: ''
                            @ join '', '' (missing_columns self)))"
    using ne by (simp add: validate_columns_def)
  have d: "distinct (required_columns self)"
    using assms(1) by (rule distinct_required_columns)
  have "validate_columns order self =
          Inl (ValueError ''The DataFrame is missing required columns: QuantityValue'')"
    if "absent_columns self = {''QuantityValue''}"
    using missing_columns_singleton [OF d that] v by simp
  moreover have "distinct (missing_columns self)"
    using d by (simp add: missing_columns_def)
  ultimately show ?thesis using v set_missing_columns by blast
qed

text \<open>The example table without its QuantityValue column, and without its UserId and
  Display columns.\<close>

lemma absent_without_quantity_value:
  "absent_columns (observation_frame (without_column ''QuantityValue'' example_table))
     = {''QuantityValue''}"
  by (auto simp: absent_columns_def observation_frame_def without_column_def example_table_def
      required_columns_def resource_columns_def df_columns_def)

theorem validate_columns_missing_witness:
  "frame_resource_columns (observation_frame (without_column ''QuantityValue'' example_table))
     = resource_columns
   \<and> absent_columns (observation_frame (without_column ''QuantityValue'' example_table))
     = {''QuantityValue''}
   \<and> validate_columns example_order
        (observation_frame (without_column ''QuantityValue'' example_table)) =
       Inl (ValueError ''The DataFrame is missing required columns: QuantityValue'')
   \<and> validate_columns example_order
        (observation_frame (without_column ''UserId'' (without_column ''Display'' example_table))) =
       Inl (ValueError ''The DataFrame is missing required columns: UserId, Display'')"
proof -
  let ?f = "observation_frame (without_column ''QuantityValue'' example_table)"
  let ?g = "observation_frame (without_column ''UserId'' (without_column ''Display'' example_table))"
  have a: "frame_resource_columns ?f = resource_columns"
    "frame_resource_columns ?g = resource_columns"
    by (simp_all add: observation_frame_def)
  have b: "absent_columns ?f = {''QuantityValue''}" by (rule absent_without_quantity_value)
  have m: "missing_columns ?g = [''UserId'', ''Display'']"
    by (simp add: missing_columns_def observation_frame_def without_column_def example_table_def
      required_columns_def resource_columns_def df_columns_def)
  have c: "absent_columns ?g \<noteq> {}"
    using set_missing_columns [of ?g] m by auto
  have b': "absent_columns ?f \<noteq> {}" using b by simp
  have "validate_columns example_order ?f =
       Inl (ValueError ''The DataFrame is missing required columns: QuantityValue'')"
    using validate_columns_missing [OF a(1) b', of example_order] b by blast
  moreover have "validate_columns example_order ?g =
       Inl (ValueError ''The DataFrame is missing required columns: UserId, Display'')"
    using validate_columns_missing [OF a(2) c, of example_order] by (simp add: m)
  ultimately show ?thesis using a(1) b by blast
qed

lemma check_string_columns_Inr_iff:
  "check_string_columns df order = Inr () \<longleftrightarrow>
     (\<forall>col \<in> set order. \<forall>c. map_of df col = Some c \<longrightarrow>
        col_dtype c = ObjectDtype \<or> col_dtype c = StringDtype)"
  by (induction order)
     (auto simp: is_string_dtype_def is_object_dtype_def split: option.splits)

lemma check_string_columns_Inl:
  "check_string_columns df order = Inl e \<Longrightarrow>
     \<exists>col c. col \<in> set order \<and> map_of df col = Some c
        \<and> col_dtype c \<noteq> ObjectDtype \<and> col_dtype c \<noteq> StringDtype
        \<and> e = ValueError (''The '' @ quoted col @ '' column does not contain strings.'')"
proof (induction order)
  case Nil
  then show ?case by simp
next
  case (Cons a order)
  show ?case
  proof (cases "map_of df a")
    case None
    then show ?thesis using Cons by auto
  next
    case (Some c)
    show ?thesis
    proof (cases "is_string_dtype c \<or> is_object_dtype c")
      case True
      then show ?thesis using Cons Some by auto
    next
      case False
      then have "e = ValueError (''The '' @ quoted a @ '' column does not contain strings.'')"
        using Cons.prems Some by simp
      moreover have "col_dtype c \<noteq> ObjectDtype \<and> col_dtype c \<noteq> StringDtype"
        using False by (auto simp: is_string_dtype_def is_object_dtype_def)
      ultimately show ?thesis using Some by auto
    qed
  qed
qed

text \<open>
  C7, as the code has it. Take a frame that lacks no required column and whose
  EffectiveDateTime column holds dates only. When one of the required columns other
  than EffectiveDateTime and QuantityValue has a dtype that is neither \<open>object\<close> nor a
  string dtype, \<open>validate_columns\<close> raises the \<open>ValueError\<close> that names such a column.
  When every one of them has the dtype \<open>object\<close> or a string dtype, it returns \<open>True\<close>,
  whatever the cells of the columns are.
\<close>

theorem validate_columns_string_check:
  assumes "absent_columns self = {}"
    and "effective_dates_ok self"
    and "set order = string_columns self"
  shows "((\<forall>col \<in> string_columns self. \<forall>c. map_of (data_frame self) col = Some c \<longrightarrow>
             col_dtype c = ObjectDtype \<or> col_dtype c = StringDtype)
          \<longrightarrow> validate_columns order self = Inr True)
       \<and> ((\<exists>col \<in> string_columns self. \<exists>c. map_of (data_frame self) col = Some c
             \<and> col_dtype c \<noteq> ObjectDtype \<and> col_dtype c \<noteq> StringDtype)
          \<longrightarrow> (\<exists>col c. col \<in> string_columns self \<and> map_of (data_frame self) col = Some c
                \<and> col_dtype c \<noteq> ObjectDtype \<and> col_dtype c \<noteq> StringDtype
                \<and> validate_columns order self =
                    Inl (ValueError (''The '' @ quoted col
                                     @ '' column does not contain strings.''))))"
proof -
  have m: "missing_columns self = []"
    using assms(1) set_missing_columns [of self] by simp
  have v: "validate_columns order self =
             bind_err (check_string_columns (data_frame self) order) (\<lambda>_. Inr True)"
    using m assms(2)
    by (auto simp: validate_columns_def effective_dates_ok_def split: option.splits)
  have ok: "validate_columns order self = Inr True"
    if "\<forall>col \<in> string_columns self. \<forall>c. map_of (data_frame self) col = Some c \<longrightarrow>
             col_dtype c = ObjectDtype \<or> col_dtype c = StringDtype"
  proof -
    have "check_string_columns (data_frame self) order = Inr ()"
      using that unfolding check_string_columns_Inr_iff assms(3) .
    then show ?thesis by (simp add: v bind_err_def)
  qed
  have bad: "\<exists>col c. col \<in> string_columns self \<and> map_of (data_frame self) col = Some c
                \<and> col_dtype c \<noteq> ObjectDtype \<and> col_dtype c \<noteq> StringDtype
                \<and> validate_columns order self =
                    Inl (ValueError (''The '' @ quoted col
                                     @ '' column does not contain strings.''))"
    if "\<exists>col \<in> string_columns self. \<exists>c. map_of (data_frame self) col = Some c
             \<and> col_dtype c \<noteq> ObjectDtype \<and> col_dtype c \<noteq> StringDtype"
  proof -
    have "check_string_columns (data_frame self) order \<noteq> Inr ()"
      using that unfolding check_string_columns_Inr_iff assms(3) by blast
    then obtain e where e: "check_string_columns (data_frame self) order = Inl e"
      by (cases "check_string_columns (data_frame self) order") auto
    from check_string_columns_Inl [OF e] obtain col c where
      "col \<in> set order" "map_of (data_frame self) col = Some c"
      "col_dtype c \<noteq> ObjectDtype" "col_dtype c \<noteq> StringDtype"
      "e = ValueError (''The '' @ quoted col @ '' column does not contain strings.'')"
      by blast
    moreover have "validate_columns order self = Inl e"
      by (simp add: v e bind_err_def)
    ultimately show ?thesis using assms(3) by blast
  qed
  show ?thesis using ok bad by blast
qed

text \<open>The example table passes; with a numeric UserId column it does not.\<close>

lemma string_columns_observation_frame:
  "string_columns (observation_frame table) = set example_order"
  by (auto simp: string_columns_def observation_frame_def required_columns_def
      resource_columns_def example_order_def)

lemma absent_columns_setitem_example:
  "absent_columns (observation_frame (df_setitem example_table ''UserId'' c)) = {}"
  by (auto simp: absent_columns_def observation_frame_def required_columns_def
      resource_columns_def df_columns_def example_table_def)

lemma effective_dates_ok_setitem_example:
  "effective_dates_ok (observation_frame (df_setitem example_table ''UserId'' c))"
  by (simp add: effective_dates_ok_def observation_frame_def example_table_def)

theorem validate_columns_string_check_witness:
  "absent_columns (observation_frame example_table) = {}
   \<and> effective_dates_ok (observation_frame example_table)
   \<and> set example_order = string_columns (observation_frame example_table)
   \<and> validate_columns example_order (observation_frame example_table) = Inr True
   \<and> validate_columns example_order
        (observation_frame (df_setitem example_table ''UserId''
           \<lparr>col_dtype = NumericDtype, col_cells = [PyNum 1, PyNum 2]\<rparr>))
       = Inl (ValueError (''The '' @ quoted ''UserId'' @ '' column does not contain strings.''))"
proof -
  let ?f = "observation_frame example_table"
  let ?c = "\<lparr>col_dtype = NumericDtype, col_cells = [PyNum 1, PyNum 2]\<rparr>"
  let ?g = "observation_frame (df_setitem example_table ''UserId'' ?c)"
  have a: "absent_columns ?f = {}"
    by (auto simp: absent_columns_def observation_frame_def required_columns_def
      resource_columns_def df_columns_def example_table_def)
  have b: "effective_dates_ok ?f"
    by (simp add: effective_dates_ok_def observation_frame_def example_table_def)
  have c: "set example_order = string_columns ?f"
    by (simp add: string_columns_observation_frame)
  have d: "\<forall>col \<in> string_columns ?f. \<forall>c. map_of (data_frame ?f) col = Some c \<longrightarrow>
             col_dtype c = ObjectDtype \<or> col_dtype c = StringDtype"
    by (simp add: string_columns_observation_frame example_order_def)
       (simp add: observation_frame_def example_table_def str_column_def)
  have 1: "validate_columns example_order ?f = Inr True"
    using validate_columns_string_check [OF a b c] d by blast
  have c': "set example_order = string_columns ?g"
    by (simp add: string_columns_observation_frame)
  have e: "\<exists>col \<in> string_columns ?g. \<exists>c. map_of (data_frame ?g) col = Some c
             \<and> col_dtype c \<noteq> ObjectDtype \<and> col_dtype c \<noteq> StringDtype"
    by (simp add: string_columns_observation_frame example_order_def)
       (simp add: observation_frame_def example_table_def str_column_def)
  obtain col c0 where cc: "col \<in> string_columns ?g" "map_of (data_frame ?g) col = Some c0"
    "col_dtype c0 \<noteq> ObjectDtype" "col_dtype c0 \<noteq> StringDtype"
    "validate_columns example_order ?g =
       Inl (ValueError (''The '' @ quoted col @ '' column does not contain strings.''))"
    using validate_columns_string_check
      [OF absent_columns_setitem_example effective_dates_ok_setitem_example c'] e
    by blast
  have "col \<in> set example_order"
    using cc(1) by (simp only: string_columns_observation_frame)
  then have "col = ''UserId''"
    using cc(2-4)
    by (auto simp: example_order_def observation_frame_def example_table_def str_column_def)
  then have 2: "validate_columns example_order ?g =
       Inl (ValueError (''The '' @ quoted ''UserId'' @ '' column does not contain strings.''))"
    using cc(5) by simp
  show ?thesis using a b c 1 2 by blast
qed

text \<open>
  A UserId column of dtype \<open>object\<close> that holds a string and a number is not uniformly
  string-like, and \<open>validate_columns\<close> returns \<open>True\<close>: line 182 accepts every column
  for which \<open>is_object_dtype\<close> holds.
\<close>

theorem object_column_passes_string_check:
  "map_of (df_setitem example_table ''UserId''
             \<lparr>col_dtype = ObjectDtype, col_cells = [PyStr ''user-1'', PyNum 5]\<rparr>) ''UserId''
     = Some \<lparr>col_dtype = ObjectDtype, col_cells = [PyStr ''user-1'', PyNum 5]\<rparr>
   \<and> \<not> list_all is_str [PyStr ''user-1'', PyNum 5]
   \<and> validate_columns example_order
        (observation_frame (df_setitem example_table ''UserId''
           \<lparr>col_dtype = ObjectDtype, col_cells = [PyStr ''user-1'', PyNum 5]\<rparr>))
       = Inr True"
proof -
  let ?c = "\<lparr>col_dtype = ObjectDtype, col_cells = [PyStr ''user-1'', PyNum 5]\<rparr>"
  let ?g = "observation_frame (df_setitem example_table ''UserId'' ?c)"
  have m: "missing_columns ?g = []"
    using absent_columns_setitem_example [of ?c] set_missing_columns [of ?g] by simp
  have d: "effective_dates_ok ?g" by (rule effective_dates_ok_setitem_example)
  have "check_string_columns (data_frame ?g) example_order = Inr ()"
    unfolding check_string_columns_Inr_iff
    by (simp add: example_order_def)
       (simp add: observation_frame_def example_table_def str_column_def)
  then have "validate_columns example_order ?g = Inr True"
    using m d
    by (auto simp: validate_columns_def effective_dates_ok_def bind_err_def split: option.splits)
  moreover have "map_of (df_setitem example_table ''UserId'' ?c) ''UserId'' = Some ?c"
    by (simp add: example_table_def)
  ultimately show ?thesis by simp
qed

section \<open>The dispatch function\<close>

text \<open>
  C8. Dispatch on the empty batch raises nothing: it prints the notice
  \<open>No data available.\<close> and returns \<open>None\<close>.
\<close>

theorem dispatch_empty_batch:
  "flatten_fhir_resources infer_dtype to_date [] = ([''No data available.''], Inr None)"
  by (simp add: flatten_fhir_resources_def)

text \<open>
  C4. A non-empty batch whose first record is a QuestionnaireResponse finds no
  flattener, although the schema has an entry for the kind. When \<open>resource_type\<close> is
  the string \<open>"QuestionnaireResponse"\<close>, building the message of the \<open>ValueError\<close>
  reads \<open>resource_type.name\<close> and raises \<open>AttributeError\<close> in its place; the documented
  \<open>ValueError\<close> is raised only when \<open>resource_type\<close> is a member of the enumeration.
\<close>

theorem dispatch_questionnaire_response:
  assumes "resources \<noteq> []"
  shows "(obs_resource_type (resources ! 0) = StrTag ''QuestionnaireResponse'' \<longrightarrow>
            flatten_fhir_resources infer_dtype to_date resources =
              ([], Inl (AttributeError
                          (quoted ''str'' @ '' object has no attribute '' @ quoted ''name''))))
       \<and> (obs_resource_type (resources ! 0) = EnumTag QUESTIONNAIRE_RESPONSE \<longrightarrow>
            flatten_fhir_resources infer_dtype to_date resources =
              ([], Inl (ValueError
                          ''No flattener found for resource type: QUESTIONNAIRE_RESPONSE'')))
       \<and> map_of resource_columns QUESTIONNAIRE_RESPONSE =
            Some [USER_ID, EFFECTIVE_DATE_TIME, QUANTITY_NAME, QUANTITY_VALUE, LOINC_CODE]"
  using assms
  by (simp add: flatten_fhir_resources_def flattener_classes_def resource_columns_def)

text \<open>Both cases on a batch of one record.\<close>

theorem dispatch_questionnaire_response_witness:
  "[questionnaire_response] \<noteq> []
   \<and> obs_resource_type ([questionnaire_response] ! 0) = StrTag ''QuestionnaireResponse''
   \<and> flatten_fhir_resources example_infer_dtype example_to_date [questionnaire_response] =
       ([], Inl (AttributeError
                   (quoted ''str'' @ '' object has no attribute '' @ quoted ''name'')))
   \<and> obs_resource_type
         ([questionnaire_response\<lparr>obs_resource_type := EnumTag QUESTIONNAIRE_RESPONSE\<rparr>] ! 0)
       = EnumTag QUESTIONNAIRE_RESPONSE
   \<and> flatten_fhir_resources example_infer_dtype example_to_date
         [questionnaire_response\<lparr>obs_resource_type := EnumTag QUESTIONNAIRE_RESPONSE\<rparr>] =
       ([], Inl (ValueError ''No flattener found for resource type: QUESTIONNAIRE_RESPONSE''))"
proof -
  have a: "obs_resource_type ([questionnaire_response] ! 0) = StrTag ''QuestionnaireResponse''"
    by (simp add: questionnaire_response_def)
  have b: "obs_resource_type
         ([questionnaire_response\<lparr>obs_resource_type := EnumTag QUESTIONNAIRE_RESPONSE\<rparr>] ! 0)
       = EnumTag QUESTIONNAIRE_RESPONSE"
    by simp
  show ?thesis
    using dispatch_questionnaire_response
            [of "[questionnaire_response]" example_infer_dtype example_to_date]
          dispatch_questionnaire_response
            [of "[questionnaire_response\<lparr>obs_resource_type := EnumTag QUESTIONNAIRE_RESPONSE\<rparr>]"
                example_infer_dtype example_to_date]
          a b
    by simp
qed

section \<open>The checks of create_static_plot\<close>

lemma first_cell_iloc0:
  assumes "map_of df ''EffectiveDateTime'' = Some dates"
    and "col_cells dates = first_cell # rest"
  shows "bind_err (df_getitem df ''EffectiveDateTime'') iloc0 = Inr first_cell"
  using assms by (simp add: df_getitem_def getitem_def bind_err_def iloc0_def)






section \<open>The date range of the visualizer\<close>

lemma parse_date_range_strings:
  assumes "start_date self = Some (DateStr s)" and "s \<noteq> []" and "strptime s = Inr d"
    and "end_date self = Some (DateStr s')" and "s' \<noteq> []" and "strptime s' = Inr d'"
  shows "parse_date_range strptime self =
           (self\<lparr>start_date := Some (DateObj d), end_date := Some (DateObj d')\<rparr>, Inr ())"
  using assms by (simp add: parse_date_range_def)

lemma parse_date_range_dates:
  assumes "start_date self = Some (DateObj d)"
  shows "parse_date_range strptime self =
           (self, Inl (TypeError ''strptime() argument 1 must be str, not datetime.date''))"
  using assms by (simp add: parse_date_range_def)

lemma create_static_plot_accepted:
  assumes "map_of (data_frame frame) ''EffectiveDateTime'' = Some dates"
    and "col_cells dates = first_cell # rest"
    and "isinstance_date first_cell"
    and "map_of (data_frame frame) ''LoincCode'' = Some loinc"
    and "nunique loinc = 1"
    and "processor_validate frame = Inr ()"
  shows "create_static_plot processor_validate strptime render self frame =
           (case parse_date_range strptime self of
              (self', Inl e) \<Rightarrow> (self', [], Inl e)
            | (self', Inr u') \<Rightarrow> (self', [], render self' (data_frame frame)))"
  using first_cell_iloc0 [OF assms(1,2)] assms(3-6)
  by (simp add: create_static_plot_def df_getitem_def getitem_def)

text \<open>
  C10. When a frame passes the checks of \<open>create_static_plot\<close> and the date range of
  the visualizer was set as two strings that \<open>strptime\<close> reads, the call stores the two
  parsed dates in \<open>start_date\<close> and \<open>end_date\<close>: the visualizer after the call is not the
  visualizer before it. A second call with that visualizer hands the stored dates to
  \<open>strptime\<close> again, which takes strings only and raises \<open>TypeError\<close>.
\<close>

theorem create_static_plot_overwrites_date_range:
  assumes "map_of (data_frame frame) ''EffectiveDateTime'' = Some dates"
    and "col_cells dates = first_cell # rest"
    and "isinstance_date first_cell"
    and "map_of (data_frame frame) ''LoincCode'' = Some loinc"
    and "nunique loinc = 1"
    and "processor_validate frame = Inr ()"
    and "start_date self = Some (DateStr s)" and "s \<noteq> []" and "strptime s = Inr d"
    and "end_date self = Some (DateStr s')" and "s' \<noteq> []" and "strptime s' = Inr d'"
  shows "create_static_plot processor_validate strptime render self frame =
           (self\<lparr>start_date := Some (DateObj d), end_date := Some (DateObj d')\<rparr>, [],
            render (self\<lparr>start_date := Some (DateObj d), end_date := Some (DateObj d')\<rparr>)
              (data_frame frame))
       \<and> self\<lparr>start_date := Some (DateObj d), end_date := Some (DateObj d')\<rparr> \<noteq> self
       \<and> create_static_plot processor_validate strptime render
            (self\<lparr>start_date := Some (DateObj d), end_date := Some (DateObj d')\<rparr>) frame =
           (self\<lparr>start_date := Some (DateObj d), end_date := Some (DateObj d')\<rparr>, [],
            Inl (TypeError ''strptime() argument 1 must be str, not datetime.date''))"
proof -
  let ?self' = "self\<lparr>start_date := Some (DateObj d), end_date := Some (DateObj d')\<rparr>"
  have 1: "create_static_plot processor_validate strptime render self frame =
           (?self', [], render ?self' (data_frame frame))"
    by (simp add: create_static_plot_accepted
          [where processor_validate = processor_validate and frame = frame, OF assms(1-6)]
        parse_date_range_strings [where strptime = strptime, OF assms(7-12)])
  have "start_date ?self' \<noteq> start_date self" using assms(7) by simp
  then have 2: "?self' \<noteq> self" by metis
  have "start_date ?self' = Some (DateObj d)" by simp
  then have 3: "create_static_plot processor_validate strptime render ?self' frame =
           (?self', [], Inl (TypeError ''strptime() argument 1 must be str, not datetime.date''))"
    by (simp add: create_static_plot_accepted
          [where processor_validate = processor_validate and frame = frame, OF assms(1-6)] parse_date_range_dates)
  show ?thesis using 1 2 3 by blast
qed

text \<open>Two calls on the example table, with the range set to two strings.\<close>

theorem create_static_plot_overwrites_date_range_witness:
  "create_static_plot example_validate example_strptime example_render example_visualizer
     (observation_frame example_table) =
     (example_visualizer\<lparr>start_date := Some (DateObj (Date 2024 1 15)),
                          end_date := Some (DateObj (Date 2024 1 31))\<rparr>, [], Inr (Some 8))
   \<and> start_date example_visualizer = Some (DateStr ''2024-01-15'')
   \<and> end_date example_visualizer = Some (DateStr ''2024-01-31'')
   \<and> create_static_plot example_validate example_strptime example_render
       (example_visualizer\<lparr>start_date := Some (DateObj (Date 2024 1 15)),
                            end_date := Some (DateObj (Date 2024 1 31))\<rparr>)
       (observation_frame example_table) =
     (example_visualizer\<lparr>start_date := Some (DateObj (Date 2024 1 15)),
                          end_date := Some (DateObj (Date 2024 1 31))\<rparr>, [],
      Inl (TypeError ''strptime() argument 1 must be str, not datetime.date''))"
proof -
  let ?dates = "\<lparr>col_dtype = ObjectDtype,
                 col_cells = [PyDate (Date 2024 1 15), PyDate (Date 2024 1 16)]\<rparr>"
  let ?f = "observation_frame example_table"
  have a: "map_of (data_frame ?f) ''EffectiveDateTime'' = Some ?dates"
    by (simp add: observation_frame_def example_table_def)
  have b: "col_cells ?dates = PyDate (Date 2024 1 15) # [PyDate (Date 2024 1 16)]" by simp
  have c: "isinstance_date (PyDate (Date 2024 1 15))" by simp
  have d: "map_of (data_frame ?f) ''LoincCode'' = Some (str_column [''8867-4'', ''8867-4''])"
    by (simp add: observation_frame_def example_table_def)
  have e: "nunique (str_column [''8867-4'', ''8867-4'']) = 1"
    by (simp add: nunique_def str_column_def)
  have f: "example_validate ?f = Inr ()" by (simp add: example_validate_def)
  have g: "start_date example_visualizer = Some (DateStr ''2024-01-15'')" "''2024-01-15'' \<noteq> []"
    "example_strptime ''2024-01-15'' = Inr (Date 2024 1 15)"
    by (simp_all add: example_visualizer_def set_date_range_def example_strptime_def)
  have h: "end_date example_visualizer = Some (DateStr ''2024-01-31'')" "''2024-01-31'' \<noteq> []"
    "example_strptime ''2024-01-31'' = Inr (Date 2024 1 31)"
    by (simp_all add: example_visualizer_def set_date_range_def example_strptime_def)
  have r: "example_render v (data_frame ?f) = Inr (Some 8)" for v
    by (simp add: example_render_def observation_frame_def example_table_def)
  show ?thesis
    using create_static_plot_overwrites_date_range
        [where processor_validate = example_validate and strptime = example_strptime
           and render = example_render and self = example_visualizer
           and frame = "observation_frame example_table",
         OF a b c d e f g h]
      g(1) h(1)
    by (simp add: r)
qed

end
